theory Spec2Isabelle
  imports Main
begin

section \<open>JavaScript values and the host environment\<close>

text \<open>
  Strings are lists of code units (\<^typ>\<open>string\<close>), with the code units below 256.  A JavaScript \<^verbatim>\<open>Error\<close> is a value
  of type \<open>error\<close>; a function that can throw returns \<open>error + 'a\<close> with \<open>Inl\<close> for the
  thrown error.  \<open>Error\<close> carries the message the repository's code gives it.  An error the
  runtime itself throws (\<^verbatim>\<open>SyntaxError\<close>, \<^verbatim>\<open>RangeError\<close>, \<^verbatim>\<open>TypeError\<close>, \<^verbatim>\<open>InvalidCharacterError\<close>) is
  identified by its class: its message is the runtime's own and differs between runtimes.
\<close>

datatype error =
    Error string
  | SyntaxError
  | RangeError
  | TypeError
  | InvalidCharacterError
  | TransportError string

text \<open>\<^verbatim>\<open>QuestDBType\<close> of \<^verbatim>\<open>types/column.ts\<close>: a union of string literals.\<close>

datatype QuestDBType =
    QBoolean | QByte | QShort | QChar | QInt | QFloat | QLong | QDouble | QDecimal
  | QDate | QTimestamp | QTimestamp_ns | QSymbol | QVarchar | QString | QUuid | QIpv4
  | QBinary | QLong256 | QGeohash | QArray

text \<open>
  A value of type \<^verbatim>\<open>unknown\<close>.  The payload \<open>'n\<close> of \<open>JNum\<close> is the IEEE double of a
  JavaScript \<^verbatim>\<open>number\<close>; it stays a type parameter, and what the runtime does with it
  comes from the \<open>host\<close> record below.  \<open>JDate\<close> carries the time value of a
  \<^verbatim>\<open>Date\<close> in milliseconds (\<open>None\<close> for an invalid date), \<open>JObject\<close> the own
  enumerable properties of a plain object in key order, \<open>JBytes\<close> a \<^verbatim>\<open>Uint8Array\<close>, \<open>JFunction\<close>
  a built-in function, by its name.
\<close>

datatype 'n jsval =
    JNull
  | JUndefined
  | JBool bool
  | JNum 'n
  | JBigInt int
  | JStr string
  | JDate "int option"
  | JArray "'n jsval list"
  | JObject "(string \<times> 'n jsval) list"
  | JBytes "nat list"
  | JFunction string

text \<open>What the JavaScript runtime supplies for numbers, dates, base64 and the text of a built-in function.\<close>

record 'n host =
  numToString :: "'n \<Rightarrow> string"
  numTruthy :: "'n \<Rightarrow> bool"
  numToBigInt :: "'n \<Rightarrow> int option"
  toNumber :: "'n jsval \<Rightarrow> 'n"
  dateToISOString :: "int \<Rightarrow> string"
  dateToString :: "int \<Rightarrow> string"
  dateParse :: "'n jsval \<Rightarrow> int option"
  atob :: "string \<Rightarrow> string option"
  functionToString :: "string \<Rightarrow> string"

subsection \<open>Decimal text of integers\<close>

definition digit_char :: "nat \<Rightarrow> char" where
  "digit_char d = ''0123456789'' ! d"

function show_nat :: "nat \<Rightarrow> string" where
  "show_nat n = (if n < 10 then [digit_char n] else show_nat (n div 10) @ [digit_char (n mod 10)])"
  by pat_completeness auto
termination
  by (relation "measure (\<lambda>n. n)") auto

declare show_nat.simps [simp del]

text \<open>\<^verbatim>\<open>BigInt.prototype.toString()\<close>, also what a template literal does to a bigint.\<close>

definition show_int :: "int \<Rightarrow> string" where
  "show_int i = (if i < 0 then CHR ''-'' # show_nat (nat (- i)) else show_nat (nat i))"

subsection \<open>\<^verbatim>\<open>Array.prototype.join\<close>, \<^verbatim>\<open>String(value)\<close>, truthiness, \<^verbatim>\<open>typeof\<close>\<close>

fun join :: "string \<Rightarrow> string list \<Rightarrow> string" where
  "join sep [] = []"
| "join sep [x] = x"
| "join sep (x # y # ys) = x @ sep @ join sep (y # ys)"

text \<open>
  \<^verbatim>\<open>String(v)\<close> and \<^verbatim>\<open>`${v}`\<close>.  \<open>js_join_elem\<close> is the conversion \<^verbatim>\<open>join\<close> applies to
  an element: \<^verbatim>\<open>null\<close> and \<^verbatim>\<open>undefined\<close> become the empty string.
\<close>

fun js_String :: "'n host \<Rightarrow> 'n jsval \<Rightarrow> string"
  and js_join_elem :: "'n host \<Rightarrow> 'n jsval \<Rightarrow> string"
  and js_join_elems :: "'n host \<Rightarrow> 'n jsval list \<Rightarrow> string list" where
  "js_String H JNull = ''null''"
| "js_String H JUndefined = ''undefined''"
| "js_String H (JBool b) = (if b then ''true'' else ''false'')"
| "js_String H (JNum n) = numToString H n"
| "js_String H (JBigInt i) = show_int i"
| "js_String H (JStr s) = s"
| "js_String H (JDate d) = (case d of None \<Rightarrow> ''Invalid Date'' | Some t \<Rightarrow> dateToString H t)"
| "js_String H (JArray xs) = join '','' (js_join_elems H xs)"
| "js_String H (JObject kvs) = ''[object Object]''"
| "js_String H (JBytes bs) = join '','' (map show_nat bs)"
| "js_String H (JFunction nm) = functionToString H nm"
| "js_join_elem H v = (if v = JNull \<or> v = JUndefined then [] else js_String H v)"
| "js_join_elems H [] = []"
| "js_join_elems H (v # vs) = js_join_elem H v # js_join_elems H vs"

definition js_join :: "'n host \<Rightarrow> string \<Rightarrow> 'n jsval list \<Rightarrow> string" where
  "js_join H sep xs = join sep (js_join_elems H xs)"

fun js_truthy :: "'n host \<Rightarrow> 'n jsval \<Rightarrow> bool" where
  "js_truthy H JNull = False"
| "js_truthy H JUndefined = False"
| "js_truthy H (JBool b) = b"
| "js_truthy H (JNum n) = numTruthy H n"
| "js_truthy H (JBigInt i) = (i \<noteq> 0)"
| "js_truthy H (JStr s) = (s \<noteq> [])"
| "js_truthy H (JDate d) = True"
| "js_truthy H (JArray xs) = True"
| "js_truthy H (JObject kvs) = True"
| "js_truthy H (JBytes bs) = True"
| "js_truthy H (JFunction nm) = True"

fun js_typeof :: "'n jsval \<Rightarrow> string" where
  "js_typeof JNull = ''object''"
| "js_typeof JUndefined = ''undefined''"
| "js_typeof (JBool b) = ''boolean''"
| "js_typeof (JNum n) = ''number''"
| "js_typeof (JBigInt i) = ''bigint''"
| "js_typeof (JStr s) = ''string''"
| "js_typeof (JDate d) = ''object''"
| "js_typeof (JArray xs) = ''object''"
| "js_typeof (JObject kvs) = ''object''"
| "js_typeof (JBytes bs) = ''object''"
| "js_typeof (JFunction nm) = ''function''"

text \<open>Truthiness of an optional string (\<^verbatim>\<open>x?: string\<close>, \<^verbatim>\<open>string | null\<close>): absent and empty are falsy.\<close>

fun str_truthy :: "string option \<Rightarrow> bool" where
  "str_truthy None = False"
| "str_truthy (Some s) = (s \<noteq> [])"

section \<open>\<^verbatim>\<open>sql/escape.ts\<close> and \<^verbatim>\<open>sql/format.ts\<close>\<close>

definition ident_start :: "char \<Rightarrow> bool" where
  "ident_start c = (c \<in> set ''abcdefghijklmnopqrstuvwxyzABCDEFGHIJKLMNOPQRSTUVWXYZ_'')"

definition ident_char :: "char \<Rightarrow> bool" where
  "ident_char c = (ident_start c \<or> c \<in> set ''0123456789'')"

text \<open>The test \<^verbatim>\<open>/^[a-zA-Z_][a-zA-Z0-9_]*$/.test(name)\<close>.\<close>

fun safe_identifier :: "string \<Rightarrow> bool" where
  "safe_identifier [] = False"
| "safe_identifier (c # cs) = (ident_start c \<and> list_all ident_char cs)"

text \<open>\<^verbatim>\<open>s.replace(/c/g, cc)\<close> for a single character \<open>c\<close>.\<close>

fun double_char :: "char \<Rightarrow> string \<Rightarrow> string" where
  "double_char q [] = []"
| "double_char q (c # cs) = (if c = q then q # q # double_char q cs else c # double_char q cs)"

definition escapeIdentifier :: "string \<Rightarrow> string" where
  "escapeIdentifier name =
     (if safe_identifier name then name
      else CHR 0x22 # double_char (CHR 0x22) name @ [CHR 0x22])"

definition escapeString :: "string \<Rightarrow> string" where
  "escapeString v = double_char (CHR 0x27) v"

definition quoted :: "string \<Rightarrow> string" where
  "quoted s = CHR 0x27 # s @ [CHR 0x27]"

text \<open>
  The \<^verbatim>\<open>timestamp\<close>/\<^verbatim>\<open>date\<close> case of \<^verbatim>\<open>formatValue\<close>.  \<^verbatim>\<open>toISOString\<close> throws a
  \<^verbatim>\<open>RangeError\<close> on an invalid date.
\<close>

definition formatTemporal :: "'n host \<Rightarrow> 'n jsval \<Rightarrow> error + string" where
  "formatTemporal H v =
    (case v of
       JDate d \<Rightarrow>
         (case d of
            None \<Rightarrow> Inl RangeError
          | Some t \<Rightarrow> Inr (quoted (dateToISOString H t)))
     | JNum n \<Rightarrow> Inr (js_String H v)
     | JBigInt i \<Rightarrow> Inr (js_String H v)
     | _ \<Rightarrow> Inr (quoted (escapeString (js_String H v))))"

definition formatValue :: "'n host \<Rightarrow> 'n jsval \<Rightarrow> QuestDBType \<Rightarrow> error + string" where
  "formatValue H v t =
    (if v = JNull \<or> v = JUndefined then Inr ''NULL''
     else case t of
       QBoolean \<Rightarrow> Inr (if js_truthy H v then ''true'' else ''false'')
     | QByte \<Rightarrow> Inr (js_String H v)
     | QShort \<Rightarrow> Inr (js_String H v)
     | QInt \<Rightarrow> Inr (js_String H v)
     | QFloat \<Rightarrow> Inr (js_String H v)
     | QDouble \<Rightarrow> Inr (js_String H v)
     | QLong \<Rightarrow> Inr (js_String H v)
     | QDecimal \<Rightarrow> Inr (quoted (escapeString (js_String H v)))
     | QChar \<Rightarrow> Inr (quoted (escapeString (js_String H v)))
     | QVarchar \<Rightarrow> Inr (quoted (escapeString (js_String H v)))
     | QString \<Rightarrow> Inr (quoted (escapeString (js_String H v)))
     | QSymbol \<Rightarrow> Inr (quoted (escapeString (js_String H v)))
     | QUuid \<Rightarrow> Inr (quoted (escapeString (js_String H v)))
     | QIpv4 \<Rightarrow> Inr (quoted (escapeString (js_String H v)))
     | QLong256 \<Rightarrow> Inr (quoted (escapeString (js_String H v)))
     | QTimestamp \<Rightarrow> formatTemporal H v
     | QDate \<Rightarrow> formatTemporal H v
     | QTimestamp_ns \<Rightarrow> Inr (js_String H v)
     | QGeohash \<Rightarrow> Inr (''##'' @ js_String H v)
     | QBinary \<Rightarrow> Inl (Error ''Binary values cannot be inserted via SQL; use the /imp endpoint'')
     | QArray \<Rightarrow>
         (case v of
            JArray xs \<Rightarrow> Inr (''{'' @ js_join H '','' xs @ ''}'')
          | _ \<Rightarrow> Inl (Error (''Expected array value, got '' @ js_typeof v))))"

section \<open>\<^verbatim>\<open>types/sql.ts\<close>: the statement nodes\<close>

datatype direction = ASC | DESC

datatype JoinType = INNER | LEFT | CROSS | ASOF | LT | SPLICE

datatype align_mode = CALENDAR | FIRST_OBSERVATION

datatype 'n FillStrategy = FillNONE | FillNULL | FillPREV | FillLINEAR | FillConstant "'n jsval"

record 'n SampleByClause =
  interval :: string
  fill :: "'n FillStrategy list"
  align :: "align_mode option"

record LatestOnClause =
  timestamp :: string
  partitionBy :: "string list"

record 'n LimitClause =
  limit_count :: 'n
  limit_offset :: "'n option"

text \<open>
  \<^verbatim>\<open>SqlExpr\<close>, \<^verbatim>\<open>SelectNode\<close>, \<^verbatim>\<open>FromClause\<close> and \<^verbatim>\<open>JoinClause\<close> refer to each other.
  An optional field (\<^verbatim>\<open>alias?: string\<close>) is an \<open>option\<close>; a projection entry
  \<^verbatim>\<open>{expr, alias?}\<close> and an ordering entry \<^verbatim>\<open>{expr, direction}\<close> are pairs.
\<close>

datatype 'n SqlExpr =
    Column "string option" string
  | Literal "'n jsval" QuestDBType
  | Binary string "'n SqlExpr" "'n SqlExpr"
  | Unary string "'n SqlExpr"
  | Function string "'n SqlExpr list"
  | Aggregate string "'n SqlExpr list" "string option"
  | Subquery "'n SelectNode"
  | Timestamp_in string string
  | In_list string "'n SqlExpr list"
  | Between string "'n SqlExpr" "'n SqlExpr"
  | Is_null string bool
  | Raw string
and 'n SelectNode =
    SelectNode
      (s_distinct: bool)
      (s_columns: "('n SqlExpr \<times> string option) list")
      (s_from: "'n FromClause")
      (s_joins: "'n JoinClause list")
      (s_where: "'n SqlExpr option")
      (s_groupBy: "'n SqlExpr list")
      (s_orderBy: "('n SqlExpr \<times> direction) list")
      (s_limit: "'n LimitClause option")
      (s_sampleBy: "'n SampleByClause option")
      (s_latestOn: "LatestOnClause option")
and 'n FromClause =
    FromTable string "string option"
  | FromSubquery "'n SelectNode" string
and 'n JoinClause =
    JoinClause (j_type: JoinType) (j_table: "'n FromClause") (j_on: "'n SqlExpr option")
      (j_tolerance: "string option")

record 'n InsertNode =
  i_table :: string
  i_columns :: "string list"
  i_values :: "'n jsval list list"
  i_columnTypes :: "QuestDBType list"

section \<open>\<^verbatim>\<open>sql/serialize.ts\<close>\<close>

definition bindE :: "error + 'a \<Rightarrow> ('a \<Rightarrow> error + 'b) \<Rightarrow> error + 'b" where
  "bindE m f = (case m of Inl e \<Rightarrow> Inl e | Inr a \<Rightarrow> f a)"

fun show_direction :: "direction \<Rightarrow> string" where
  "show_direction ASC = ''ASC''"
| "show_direction DESC = ''DESC''"

fun show_JoinType :: "JoinType \<Rightarrow> string" where
  "show_JoinType INNER = ''INNER''"
| "show_JoinType LEFT = ''LEFT''"
| "show_JoinType CROSS = ''CROSS''"
| "show_JoinType ASOF = ''ASOF''"
| "show_JoinType LT = ''LT''"
| "show_JoinType SPLICE = ''SPLICE''"

fun show_align :: "align_mode \<Rightarrow> string" where
  "show_align CALENDAR = ''CALENDAR''"
| "show_align FIRST_OBSERVATION = ''FIRST OBSERVATION''"

text \<open>The mapping over \<^verbatim>\<open>node.sampleBy.fill\<close>, followed by what \<^verbatim>\<open>join\<close> makes of each entry.\<close>

fun show_fill :: "'n host \<Rightarrow> 'n FillStrategy \<Rightarrow> string" where
  "show_fill H FillNONE = ''NONE''"
| "show_fill H FillNULL = ''NULL''"
| "show_fill H FillPREV = ''PREV''"
| "show_fill H FillLINEAR = ''LINEAR''"
| "show_fill H (FillConstant c) = js_String H c"

definition serializeSampleBy :: "'n host \<Rightarrow> 'n SampleByClause \<Rightarrow> string list" where
  "serializeSampleBy H sb =
     [''SAMPLE BY '' @ interval sb]
     @ (if fill sb \<noteq> [] then [''FILL('' @ join '', '' (map (show_fill H) (fill sb)) @ '')''] else [])
     @ (case align sb of None \<Rightarrow> [] | Some a \<Rightarrow> [''ALIGN TO '' @ show_align a])"

definition serializeLatestOn :: "LatestOnClause \<Rightarrow> string" where
  "serializeLatestOn lo =
     ''LATEST ON '' @ escapeIdentifier (timestamp lo) @ '' PARTITION BY ''
       @ join '', '' (map escapeIdentifier (partitionBy lo))"

definition serializeLimit :: "'n host \<Rightarrow> 'n LimitClause \<Rightarrow> string" where
  "serializeLimit H l =
     ''LIMIT '' @ numToString H (limit_count l)
       @ (case limit_offset l of None \<Rightarrow> [] | Some off \<Rightarrow> '', '' @ numToString H off)"

text \<open>
  \<^verbatim>\<open>serializeExpr\<close>, \<^verbatim>\<open>serializeSelect\<close> and \<^verbatim>\<open>serializeFrom\<close>.  The functions on lists are
  the \<^verbatim>\<open>map\<close> calls and the loop over the joins; the first error raised, in evaluation
  order, is the result.
\<close>

fun serializeExpr :: "'n host \<Rightarrow> 'n SqlExpr \<Rightarrow> error + string"
  and serializeExprs :: "'n host \<Rightarrow> 'n SqlExpr list \<Rightarrow> error + string list"
  and serializeSelect :: "'n host \<Rightarrow> 'n SelectNode \<Rightarrow> error + string"
  and serializeFrom :: "'n host \<Rightarrow> 'n FromClause \<Rightarrow> error + string"
  and serializeColumns :: "'n host \<Rightarrow> ('n SqlExpr \<times> string option) list \<Rightarrow> error + string list"
  and serializeJoins :: "'n host \<Rightarrow> 'n JoinClause list \<Rightarrow> error + string list"
  and serializeOrders :: "'n host \<Rightarrow> ('n SqlExpr \<times> direction) list \<Rightarrow> error + string list"
where
  "serializeExpr H (Column tbl name) =
     Inr (case tbl of
            None \<Rightarrow> escapeIdentifier name
          | Some t \<Rightarrow> if t \<noteq> [] then escapeIdentifier t @ ''.'' @ escapeIdentifier name
                      else escapeIdentifier name)"
| "serializeExpr H (Literal v t) = formatValue H v t"
| "serializeExpr H (Binary op l r) =
     bindE (serializeExpr H l) (\<lambda>a. bindE (serializeExpr H r) (\<lambda>b.
       Inr (''('' @ a @ '' '' @ op @ '' '' @ b @ '')'')))"
| "serializeExpr H (Unary op e) =
     bindE (serializeExpr H e) (\<lambda>a. Inr (''('' @ op @ '' '' @ a @ '')''))"
| "serializeExpr H (Function name args) =
     bindE (serializeExprs H args) (\<lambda>as. Inr (name @ ''('' @ join '', '' as @ '')''))"
| "serializeExpr H (Aggregate name args alias) =
     bindE (serializeExprs H args) (\<lambda>as.
       Inr (if str_truthy alias
            then name @ ''('' @ join '', '' as @ '')'' @ '' AS '' @ escapeIdentifier (the alias)
            else name @ ''('' @ join '', '' as @ '')''))"
| "serializeExpr H (Subquery sel) =
     bindE (serializeSelect H sel) (\<lambda>s. Inr (''('' @ s @ '')''))"
| "serializeExpr H (Timestamp_in col iv) =
     Inr (escapeIdentifier col @ '' IN '' @ quoted (escapeString iv))"
| "serializeExpr H (In_list col vs) =
     bindE (serializeExprs H vs) (\<lambda>as.
       Inr (escapeIdentifier col @ '' IN ('' @ join '', '' as @ '')''))"
| "serializeExpr H (Between col lo hi) =
     bindE (serializeExpr H lo) (\<lambda>a. bindE (serializeExpr H hi) (\<lambda>b.
       Inr (escapeIdentifier col @ '' BETWEEN '' @ a @ '' AND '' @ b)))"
| "serializeExpr H (Is_null col negated) =
     Inr (if negated then escapeIdentifier col @ '' IS NOT NULL''
          else escapeIdentifier col @ '' IS NULL'')"
| "serializeExpr H (Raw sql) = Inr sql"
| "serializeExprs H [] = Inr []"
| "serializeExprs H (e # es) =
     bindE (serializeExpr H e) (\<lambda>a. bindE (serializeExprs H es) (\<lambda>as. Inr (a # as)))"
| "serializeSelect H (SelectNode dist cols frm joins wh grp ord lim samp latest) =
     bindE (serializeColumns H cols) (\<lambda>cs.
     bindE (serializeFrom H frm) (\<lambda>f.
     bindE (serializeJoins H joins) (\<lambda>js.
     bindE (case wh of None \<Rightarrow> Inr []
            | Some w \<Rightarrow> bindE (serializeExpr H w) (\<lambda>a. Inr [''WHERE '' @ a])) (\<lambda>ws.
     bindE (serializeExprs H grp) (\<lambda>gs.
     bindE (serializeOrders H ord) (\<lambda>os.
       Inr (join [CHR 0x0A]
         ([(if dist then ''SELECT DISTINCT'' else ''SELECT'')
             @ (if cols = [] then '' *'' else '' '' @ join '', '' cs)]
          @ [''FROM '' @ f]
          @ js
          @ (case latest of None \<Rightarrow> [] | Some lo \<Rightarrow> [serializeLatestOn lo])
          @ ws
          @ (case samp of None \<Rightarrow> [] | Some sb \<Rightarrow> serializeSampleBy H sb)
          @ (if grp \<noteq> [] then [''GROUP BY '' @ join '', '' gs] else [])
          @ (if ord \<noteq> [] then [''ORDER BY '' @ join '', '' os] else [])
          @ (case lim of None \<Rightarrow> [] | Some l \<Rightarrow> [serializeLimit H l])))))))))"
| "serializeFrom H (FromTable name alias) =
     Inr (if str_truthy alias then escapeIdentifier name @ '' '' @ escapeIdentifier (the alias)
          else escapeIdentifier name)"
| "serializeFrom H (FromSubquery sel alias) =
     bindE (serializeSelect H sel) (\<lambda>s. Inr (''('' @ s @ '') '' @ escapeIdentifier alias))"
| "serializeColumns H [] = Inr []"
| "serializeColumns H ((e, alias) # cs) =
     bindE (serializeExpr H e) (\<lambda>a.
     bindE (serializeColumns H cs) (\<lambda>as.
       Inr ((if str_truthy alias then a @ '' AS '' @ escapeIdentifier (the alias) else a) # as)))"
| "serializeJoins H [] = Inr []"
| "serializeJoins H (JoinClause ty tbl on tol # js) =
     bindE (serializeFrom H tbl) (\<lambda>f.
     bindE (case on of None \<Rightarrow> Inr []
            | Some c \<Rightarrow> bindE (serializeExpr H c) (\<lambda>a. Inr ('' ON '' @ a))) (\<lambda>onStr.
     bindE (serializeJoins H js) (\<lambda>rest.
       Inr ((show_JoinType ty @ '' JOIN '' @ f @ onStr) # rest))))"
| "serializeOrders H [] = Inr []"
| "serializeOrders H ((e, d) # os) =
     bindE (serializeExpr H e) (\<lambda>a.
     bindE (serializeOrders H os) (\<lambda>as. Inr ((a @ '' '' @ show_direction d) # as)))"

text \<open>
  One cell of a row in \<^verbatim>\<open>serializeInsert\<close>: an object with a \<^verbatim>\<open>_rawSQL\<close> property yields
  that property as it is, anything else is formatted for the type at its position
  (\<^verbatim>\<open>node.columnTypes[i] ?? "varchar"\<close>).
\<close>

definition serializeCell ::
  "'n host \<Rightarrow> QuestDBType list \<Rightarrow> nat \<Rightarrow> 'n jsval \<Rightarrow> error + 'n jsval" where
  "serializeCell H types i val =
     (let formatted =
            bindE (formatValue H val (if i < length types then types ! i else QVarchar))
                  (\<lambda>s. Inr (JStr s))
      in case val of
           JObject kvs \<Rightarrow>
             (case map_of kvs ''_rawSQL'' of Some raw \<Rightarrow> Inr raw | None \<Rightarrow> formatted)
         | _ \<Rightarrow> formatted)"

fun serializeCells ::
  "'n host \<Rightarrow> QuestDBType list \<Rightarrow> nat \<Rightarrow> 'n jsval list \<Rightarrow> error + 'n jsval list" where
  "serializeCells H types i [] = Inr []"
| "serializeCells H types i (v # vs) =
     bindE (serializeCell H types i v) (\<lambda>c.
     bindE (serializeCells H types (Suc i) vs) (\<lambda>cs. Inr (c # cs)))"

fun serializeRows ::
  "'n host \<Rightarrow> QuestDBType list \<Rightarrow> 'n jsval list list \<Rightarrow> error + string list" where
  "serializeRows H types [] = Inr []"
| "serializeRows H types (row # rows) =
     bindE (serializeCells H types 0 row) (\<lambda>cells.
     bindE (serializeRows H types rows) (\<lambda>rest. Inr (js_join H '', '' cells # rest)))"

definition serializeInsert :: "'n host \<Rightarrow> 'n InsertNode \<Rightarrow> error + string" where
  "serializeInsert H node =
     (if i_values node = [] then Inl (Error ''INSERT requires at least one row'')
      else bindE (serializeRows H (i_columnTypes node) (i_values node)) (\<lambda>valueRows.
        Inr (join [CHR 0x0A]
          [''INSERT INTO '' @ escapeIdentifier (i_table node),
           ''('' @ join '', '' (map escapeIdentifier (i_columns node)) @ '')'',
           ''VALUES'',
           join ('','' @ [CHR 0x0A]) (map (\<lambda>v. ''('' @ v @ '')'') valueRows)])))"

section \<open>Table definitions (\<^verbatim>\<open>types/column.ts\<close>, \<^verbatim>\<open>schema/define.ts\<close>)\<close>

record 'n ColumnMeta =
  designated :: "bool option"
  symbolCapacity :: "'n option"
  symbolCache :: "bool option"
  symbolIndex :: "bool option"
  symbolIndexCapacity :: "'n option"
  geohashBits :: "'n option"
  geohashUnit :: "string option"
  arrayType :: "QuestDBType option"

record 'n QColumn =
  qdbType :: QuestDBType
  meta :: "'n ColumnMeta"

text \<open>
  \<^verbatim>\<open>TableDefLike\<close>.  \<open>columns\<close> is the list \<^verbatim>\<open>Object.entries(def.columns)\<close> yields, in
  its order.
\<close>

record 'n TableDef =
  name :: string
  columns :: "(string \<times> 'n QColumn) list"
  partitionBy_def :: string
  wal :: bool
  dedupKeys :: "string list"
  ttl :: "string option"
  maxUncommittedRows :: "'n option"
  o3MaxLag :: "string option"

text \<open>\<^verbatim>\<open>col.meta.designated\<close> in a condition.\<close>

definition is_designated :: "'n QColumn \<Rightarrow> bool" where
  "is_designated col = (designated (meta col) = Some True)"

text \<open>\<^verbatim>\<open>findDesignatedColumn\<close> of \<^verbatim>\<open>ddl/create.ts\<close>; \<open>None\<close> is \<^verbatim>\<open>null\<close>.\<close>

fun findDesignatedColumn :: "(string \<times> 'n QColumn) list \<Rightarrow> string option" where
  "findDesignatedColumn [] = None"
| "findDesignatedColumn ((nm, col) # rest) =
     (if is_designated col then Some nm else findDesignatedColumn rest)"

section \<open>\<^verbatim>\<open>query/expression.ts\<close>\<close>

fun inferQdbType :: "'n jsval \<Rightarrow> QuestDBType" where
  "inferQdbType (JBool b) = QBoolean"
| "inferQdbType (JBigInt i) = QLong"
| "inferQdbType (JNum n) = QDouble"
| "inferQdbType (JDate d) = QTimestamp"
| "inferQdbType v = QVarchar"

text \<open>
  A \<^verbatim>\<open>ColumnExpr\<close> is the closure \<^verbatim>\<open>buildColumnExpr(name, table)\<close> returns: it holds the two
  arguments, and its methods are the functions \<open>ce_eq\<close> to \<open>ce_ref\<close>.
\<close>

record ColumnExpr =
  ce_name :: string
  ce_table :: "string option"

definition buildColumnExpr :: "string \<Rightarrow> string option \<Rightarrow> ColumnExpr" where
  "buildColumnExpr nm tbl = \<lparr>ce_name = nm, ce_table = tbl\<rparr>"

definition colRef :: "ColumnExpr \<Rightarrow> 'n SqlExpr" where
  "colRef c = Column (ce_table c) (ce_name c)"

definition ce_cmp :: "string \<Rightarrow> ColumnExpr \<Rightarrow> 'n jsval \<Rightarrow> 'n SqlExpr" where
  "ce_cmp op c v = Binary op (colRef c) (Literal v (inferQdbType v))"

definition ce_eq :: "ColumnExpr \<Rightarrow> 'n jsval \<Rightarrow> 'n SqlExpr" where
  "ce_eq = ce_cmp ''=''"

definition ce_neq :: "ColumnExpr \<Rightarrow> 'n jsval \<Rightarrow> 'n SqlExpr" where
  "ce_neq = ce_cmp ''!=''"

definition ce_gt :: "ColumnExpr \<Rightarrow> 'n jsval \<Rightarrow> 'n SqlExpr" where
  "ce_gt = ce_cmp ''>''"

definition ce_gte :: "ColumnExpr \<Rightarrow> 'n jsval \<Rightarrow> 'n SqlExpr" where
  "ce_gte = ce_cmp ''>=''"

definition ce_lt :: "ColumnExpr \<Rightarrow> 'n jsval \<Rightarrow> 'n SqlExpr" where
  "ce_lt = ce_cmp ''<''"

definition ce_lte :: "ColumnExpr \<Rightarrow> 'n jsval \<Rightarrow> 'n SqlExpr" where
  "ce_lte = ce_cmp ''<=''"

definition ce_in :: "ColumnExpr \<Rightarrow> 'n jsval list \<Rightarrow> 'n SqlExpr" where
  "ce_in c vs = In_list (ce_name c) (map (\<lambda>v. Literal v (inferQdbType v)) vs)"

definition ce_isNull :: "ColumnExpr \<Rightarrow> 'n SqlExpr" where
  "ce_isNull c = Is_null (ce_name c) False"

definition ce_isNotNull :: "ColumnExpr \<Rightarrow> 'n SqlExpr" where
  "ce_isNotNull c = Is_null (ce_name c) True"

definition ce_between :: "ColumnExpr \<Rightarrow> 'n jsval \<Rightarrow> 'n jsval \<Rightarrow> 'n SqlExpr" where
  "ce_between c lo hi =
     Between (ce_name c) (Literal lo (inferQdbType lo)) (Literal hi (inferQdbType hi))"

definition ce_like :: "ColumnExpr \<Rightarrow> string \<Rightarrow> 'n SqlExpr" where
  "ce_like c pat = Binary ''LIKE'' (colRef c) (Literal (JStr pat) QVarchar)"

definition ce_matches :: "ColumnExpr \<Rightarrow> string \<Rightarrow> 'n SqlExpr" where
  "ce_matches c pat = Binary ''~'' (colRef c) (Literal (JStr pat) QVarchar)"

definition ce_ref :: "ColumnExpr \<Rightarrow> 'n SqlExpr" where
  "ce_ref c = colRef c"

type_synonym ColumnExprs = "(string \<times> ColumnExpr) list"

definition buildColumnExprs :: "'n TableDef \<Rightarrow> string option \<Rightarrow> ColumnExprs" where
  "buildColumnExprs def tableAlias =
     map (\<lambda>(nm, col). (nm, buildColumnExpr nm tableAlias)) (columns def)"

text \<open>
  \<^verbatim>\<open>and(...exprs)\<close> and \<^verbatim>\<open>or(...exprs)\<close>.  \<^verbatim>\<open>reduce\<close> without an initial value starts from
  the first element and folds the others from the left.
\<close>

definition combine :: "string \<Rightarrow> 'n SqlExpr \<Rightarrow> 'n SqlExpr \<Rightarrow> 'n SqlExpr" where
  "combine op acc expr = Binary op acc expr"

fun and_exprs :: "'n SqlExpr list \<Rightarrow> error + 'n SqlExpr" where
  "and_exprs [] = Inl (Error ''and() requires at least one expression'')"
| "and_exprs [e] = Inr e"
| "and_exprs (e # es) = Inr (foldl (combine ''AND'') e es)"

fun or_exprs :: "'n SqlExpr list \<Rightarrow> error + 'n SqlExpr" where
  "or_exprs [] = Inl (Error ''or() requires at least one expression'')"
| "or_exprs [e] = Inr e"
| "or_exprs (e # es) = Inr (foldl (combine ''OR'') e es)"

definition not_expr :: "'n SqlExpr \<Rightarrow> 'n SqlExpr" where
  "not_expr e = Unary ''NOT'' e"

section \<open>\<^verbatim>\<open>query/insert.ts\<close>: \<^verbatim>\<open>InsertBuilder\<close>\<close>

text \<open>
  A row (\<^verbatim>\<open>Record<string, unknown>\<close>) is a plain object, given by the list of its own properties;
  its prototype is \<^verbatim>\<open>Object.prototype\<close>.  \<open>get_prop row k\<close> is \<^verbatim>\<open>row[k]\<close>: the own property when
  there is one, otherwise the property the row inherits, otherwise \<^verbatim>\<open>undefined\<close>.
  \<^verbatim>\<open>Object.keys(row)\<close> lists the own properties only.  The builder is mutable in the source;
  here \<^verbatim>\<open>values\<close> and \<^verbatim>\<open>valuesMany\<close> return the builder with the rows pushed.
\<close>

type_synonym 'n row = "(string \<times> 'n jsval) list"

definition object_prototype :: "(string \<times> 'n jsval) list" where
  "object_prototype =
     [(''constructor'', JFunction ''Object''),
      (''__defineGetter__'', JFunction ''__defineGetter__''),
      (''__defineSetter__'', JFunction ''__defineSetter__''),
      (''hasOwnProperty'', JFunction ''hasOwnProperty''),
      (''__lookupGetter__'', JFunction ''__lookupGetter__''),
      (''__lookupSetter__'', JFunction ''__lookupSetter__''),
      (''isPrototypeOf'', JFunction ''isPrototypeOf''),
      (''propertyIsEnumerable'', JFunction ''propertyIsEnumerable''),
      (''toString'', JFunction ''toString''),
      (''valueOf'', JFunction ''valueOf''),
      (''toLocaleString'', JFunction ''toLocaleString''),
      (''__proto__'', JObject [])]"

definition get_prop :: "'n row \<Rightarrow> string \<Rightarrow> 'n jsval" where
  "get_prop row k =
     (case map_of row k of
        Some v \<Rightarrow> v
      | None \<Rightarrow> (case map_of object_prototype k of None \<Rightarrow> JUndefined | Some v \<Rightarrow> v))"

record 'n InsertBuilder =
  ib_def :: "'n TableDef"
  ib_rows :: "'n row list"

definition new_InsertBuilder :: "'n TableDef \<Rightarrow> 'n InsertBuilder" where
  "new_InsertBuilder def = \<lparr>ib_def = def, ib_rows = []\<rparr>"

definition values_row :: "'n InsertBuilder \<Rightarrow> 'n row \<Rightarrow> 'n InsertBuilder" where
  "values_row b row = b\<lparr>ib_rows := ib_rows b @ [row]\<rparr>"

definition valuesMany :: "'n InsertBuilder \<Rightarrow> 'n row list \<Rightarrow> 'n InsertBuilder" where
  "valuesMany b rows = foldl values_row b rows"

text \<open>The keys collected into \<^verbatim>\<open>allKeys\<close>; membership in the \<^verbatim>\<open>Set\<close> is membership in the list.\<close>

definition allKeys :: "'n row list \<Rightarrow> string list" where
  "allKeys rows =
     concat (map (\<lambda>row. filter (\<lambda>key. get_prop row key \<noteq> JUndefined) (map fst row)) rows)"

text \<open>The first designated column that no row provides (\<^verbatim>\<open>designatedCol\<close>).\<close>

fun designatedCol :: "(string \<times> 'n QColumn) list \<Rightarrow> string list \<Rightarrow> string option" where
  "designatedCol [] keys = None"
| "designatedCol ((nm, col) # rest) keys =
     (if is_designated col \<and> nm \<notin> set keys then Some nm else designatedCol rest keys)"

definition insertColumns ::
  "(string \<times> 'n QColumn) list \<Rightarrow> string list \<Rightarrow> string option \<Rightarrow> (string \<times> 'n QColumn) list" where
  "insertColumns colEntries keys dcol =
     filter (\<lambda>(nm, col). nm \<in> set keys \<or> Some nm = dcol) colEntries"

definition now_token :: "'n jsval" where
  "now_token = JObject [(''_rawSQL'', JStr ''now()'')]"

definition insertCell :: "string option \<Rightarrow> 'n row \<Rightarrow> string \<Rightarrow> 'n jsval" where
  "insertCell dcol row nm =
     (if Some nm = dcol \<and> get_prop row nm = JUndefined then now_token
      else if get_prop row nm = JNull \<or> get_prop row nm = JUndefined then JNull
      else get_prop row nm)"

definition insertNode :: "'n InsertBuilder \<Rightarrow> 'n InsertNode" where
  "insertNode b =
     (let colEntries = columns (ib_def b);
          keys = allKeys (ib_rows b);
          dcol = designatedCol colEntries keys;
          cols = insertColumns colEntries keys dcol;
          colNames = map fst cols;
          colTypes = map (\<lambda>(nm, col). qdbType col) cols
      in \<lparr>i_table = name (ib_def b),
          i_columns = colNames,
          i_values = map (\<lambda>row. map (insertCell dcol row) colNames) (ib_rows b),
          i_columnTypes = colTypes\<rparr>)"

definition insert_toSQL :: "'n host \<Rightarrow> 'n InsertBuilder \<Rightarrow> error + string" where
  "insert_toSQL H b = serializeInsert H (insertNode b)"

text \<open>
  \<^verbatim>\<open>execute\<close>.  The transport client is a function from the SQL text to its response or
  error; the list of the texts it has been called with is threaded through, so that a
  call of the client is visible in the result.
\<close>

definition insert_execute ::
  "'n host \<Rightarrow> (string \<Rightarrow> error + 'r) \<Rightarrow> string list \<Rightarrow> 'n InsertBuilder
     \<Rightarrow> string list \<times> (error + nat)" where
  "insert_execute H client sent b =
     (if length (ib_rows b) = 0 then (sent, Inr 0)
      else case insert_toSQL H b of
             Inl e \<Rightarrow> (sent, Inl e)
           | Inr sql \<Rightarrow>
               (case client sql of
                  Inl e \<Rightarrow> (sent @ [sql], Inl e)
                | Inr resp \<Rightarrow> (sent @ [sql], Inr (length (ib_rows b)))))"

section \<open>\<^verbatim>\<open>query/select.ts\<close>: \<^verbatim>\<open>SelectBuilder\<close>\<close>

text \<open>
  \<^verbatim>\<open>Partial<SelectNode>\<close>: each field present or absent.  \<open>overlay n p\<close> is the object
  spread \<^verbatim>\<open>{...n, ...p}\<close>.
\<close>

record 'n SelectPatch =
  p_distinct :: "bool option"
  p_columns :: "('n SqlExpr \<times> string option) list option"
  p_from :: "'n FromClause option"
  p_joins :: "'n JoinClause list option"
  p_where :: "'n SqlExpr option option"
  p_groupBy :: "'n SqlExpr list option"
  p_orderBy :: "('n SqlExpr \<times> direction) list option"
  p_limit :: "'n LimitClause option option"
  p_sampleBy :: "'n SampleByClause option option"
  p_latestOn :: "LatestOnClause option option"

definition no_patch :: "'n SelectPatch" where
  "no_patch = \<lparr>p_distinct = None, p_columns = None, p_from = None, p_joins = None,
     p_where = None, p_groupBy = None, p_orderBy = None, p_limit = None, p_sampleBy = None,
     p_latestOn = None\<rparr>"

definition pick :: "'a \<Rightarrow> 'a option \<Rightarrow> 'a" where
  "pick old new = (case new of None \<Rightarrow> old | Some v \<Rightarrow> v)"

definition overlay :: "'n SelectNode \<Rightarrow> 'n SelectPatch \<Rightarrow> 'n SelectNode" where
  "overlay n p =
     SelectNode (pick (s_distinct n) (p_distinct p)) (pick (s_columns n) (p_columns p))
       (pick (s_from n) (p_from p)) (pick (s_joins n) (p_joins p))
       (pick (s_where n) (p_where p)) (pick (s_groupBy n) (p_groupBy p))
       (pick (s_orderBy n) (p_orderBy p)) (pick (s_limit n) (p_limit p))
       (pick (s_sampleBy n) (p_sampleBy p)) (pick (s_latestOn n) (p_latestOn p))"

text \<open>A whole node passed where a \<^verbatim>\<open>Partial<SelectNode>\<close> is expected.\<close>

definition as_patch :: "'n SelectNode \<Rightarrow> 'n SelectPatch" where
  "as_patch n = \<lparr>p_distinct = Some (s_distinct n), p_columns = Some (s_columns n),
     p_from = Some (s_from n), p_joins = Some (s_joins n), p_where = Some (s_where n),
     p_groupBy = Some (s_groupBy n), p_orderBy = Some (s_orderBy n),
     p_limit = Some (s_limit n), p_sampleBy = Some (s_sampleBy n),
     p_latestOn = Some (s_latestOn n)\<rparr>"

definition default_node :: "'n TableDef \<Rightarrow> 'n SelectNode" where
  "default_node def =
     SelectNode False [] (FromTable (name def) None) [] None [] [] None None None"

text \<open>
  The node objects live in a store, a list indexed by address.  A builder holds the
  address of its node and its table definition (both fields are \<^verbatim>\<open>readonly\<close>); the client
  it also holds is used by \<^verbatim>\<open>execute\<close> and \<^verbatim>\<open>first\<close> only.  The constructor allocates the node
  \<^verbatim>\<open>{...defaults, ...node}\<close> at a new address.
\<close>

type_synonym 'n store = "'n SelectNode list"

record 'n SelectBuilder =
  sb_node :: nat
  sb_def :: "'n TableDef"

definition new_SelectBuilder ::
  "'n store \<Rightarrow> 'n TableDef \<Rightarrow> 'n SelectPatch \<Rightarrow> 'n store \<times> 'n SelectBuilder" where
  "new_SelectBuilder st def node =
     (st @ [overlay (default_node def) node], \<lparr>sb_node = length st, sb_def = def\<rparr>)"

text \<open>\<^verbatim>\<open>this._node\<close>.\<close>

definition node_of :: "'n store \<Rightarrow> 'n SelectBuilder \<Rightarrow> 'n SelectNode" where
  "node_of st b = st ! sb_node b"

definition clone ::
  "'n store \<Rightarrow> 'n SelectBuilder \<Rightarrow> 'n SelectPatch \<Rightarrow> 'n store \<times> 'n SelectBuilder" where
  "clone st b patch = new_SelectBuilder st (sb_def b) (as_patch (overlay (node_of st b) patch))"

definition select_distinct :: "'n store \<Rightarrow> 'n SelectBuilder \<Rightarrow> 'n store \<times> 'n SelectBuilder" where
  "select_distinct st b = clone st b (no_patch\<lparr>p_distinct := Some True\<rparr>)"

definition select_columns ::
  "'n store \<Rightarrow> 'n SelectBuilder \<Rightarrow> string list \<Rightarrow> 'n store \<times> 'n SelectBuilder" where
  "select_columns st b cols =
     new_SelectBuilder st (sb_def b)
       ((as_patch (node_of st b))\<lparr>p_columns := Some (map (\<lambda>c. (Column None c, None)) cols)\<rparr>)"

definition addExpr ::
  "'n store \<Rightarrow> 'n SelectBuilder \<Rightarrow> 'n SqlExpr \<Rightarrow> string option
     \<Rightarrow> 'n store \<times> 'n SelectBuilder" where
  "addExpr st b expr alias =
     clone st b (no_patch\<lparr>p_columns := Some (s_columns (node_of st b) @ [(expr, alias)])\<rparr>)"

text \<open>
  The callback of \<^verbatim>\<open>where\<close>, \<^verbatim>\<open>andWhere\<close> and the joins is the caller's code: a function from the
  column expressions to the expression it returns or the error it throws (\<^verbatim>\<open>c => and()\<close>
  throws).  The call throws what its callback throws, before it clones.
\<close>

definition returned :: "'s \<times> 'b \<Rightarrow> 's \<times> (error + 'b)" where
  "returned r = (fst r, Inr (snd r))"

definition select_where ::
  "'n store \<Rightarrow> 'n SelectBuilder \<Rightarrow> (ColumnExprs \<Rightarrow> error + 'n SqlExpr)
     \<Rightarrow> 'n store \<times> (error + 'n SelectBuilder)" where
  "select_where st b fn =
     (let exprs = buildColumnExprs (sb_def b) None
      in case fn exprs of
           Inl e \<Rightarrow> (st, Inl e)
         | Inr w \<Rightarrow> returned (clone st b (no_patch\<lparr>p_where := Some (Some w)\<rparr>)))"

text \<open>The conjunction \<^verbatim>\<open>andWhere\<close> and \<^verbatim>\<open>whereTimestamp\<close> build from the present \<^verbatim>\<open>where\<close>.\<close>

definition and_where :: "'n SqlExpr option \<Rightarrow> 'n SqlExpr \<Rightarrow> 'n SqlExpr" where
  "and_where old new = (case old of Some w \<Rightarrow> Binary ''AND'' w new | None \<Rightarrow> new)"

definition andWhere ::
  "'n store \<Rightarrow> 'n SelectBuilder \<Rightarrow> (ColumnExprs \<Rightarrow> error + 'n SqlExpr)
     \<Rightarrow> 'n store \<times> (error + 'n SelectBuilder)" where
  "andWhere st b fn =
     (let exprs = buildColumnExprs (sb_def b) None
      in case fn exprs of
           Inl e \<Rightarrow> (st, Inl e)
         | Inr newExpr \<Rightarrow>
             returned (clone st b
               (no_patch\<lparr>p_where := Some (Some (and_where (s_where (node_of st b)) newExpr))\<rparr>)))"

definition whereTimestamp ::
  "'n store \<Rightarrow> 'n SelectBuilder \<Rightarrow> string \<Rightarrow> string \<Rightarrow> 'n store \<times> 'n SelectBuilder" where
  "whereTimestamp st b column iv =
     (let expr = Timestamp_in column iv
      in clone st b (no_patch\<lparr>p_where := Some (Some (and_where (s_where (node_of st b)) expr))\<rparr>))"

text \<open>The optional \<^verbatim>\<open>fill\<close> argument of \<^verbatim>\<open>sampleBy\<close>: absent, one strategy, or an array.\<close>

datatype 'n fill_arg = NoFill | OneFill "'n FillStrategy" | ManyFill "'n FillStrategy list"

fun fillArr :: "'n fill_arg \<Rightarrow> 'n FillStrategy list" where
  "fillArr NoFill = []"
| "fillArr (OneFill f) = [f]"
| "fillArr (ManyFill fs) = fs"

definition sampleBy ::
  "'n store \<Rightarrow> 'n SelectBuilder \<Rightarrow> string \<Rightarrow> 'n fill_arg \<Rightarrow> align_mode option
     \<Rightarrow> 'n store \<times> 'n SelectBuilder" where
  "sampleBy st b iv fl al =
     clone st b (no_patch\<lparr>p_sampleBy :=
       Some (Some \<lparr>interval = iv, fill = fillArr fl, align = al\<rparr>)\<rparr>)"

text \<open>\<^verbatim>\<open>latestOn\<close>: \<^verbatim>\<open>!designated\<close> holds of \<^verbatim>\<open>null\<close> and of the empty string.\<close>

definition latestOn ::
  "'n store \<Rightarrow> 'n SelectBuilder \<Rightarrow> string list \<Rightarrow> 'n store \<times> (error + 'n SelectBuilder)" where
  "latestOn st b parts =
     (let d = findDesignatedColumn (columns (sb_def b))
      in if \<not> str_truthy d
         then (st, Inl (Error ''LATEST ON requires a designated timestamp column''))
         else (case clone st b (no_patch\<lparr>p_latestOn :=
                       Some (Some \<lparr>timestamp = the d, partitionBy = parts\<rparr>)\<rparr>) of
                 (st', b') \<Rightarrow> (st', Inr b')))"

definition joinWith ::
  "'n store \<Rightarrow> 'n SelectBuilder \<Rightarrow> JoinType \<Rightarrow> 'n TableDef \<Rightarrow> string
     \<Rightarrow> (ColumnExprs \<Rightarrow> ColumnExprs \<Rightarrow> error + 'n SqlExpr) option \<Rightarrow> string option
     \<Rightarrow> 'n store \<times> (error + 'n SelectBuilder)" where
  "joinWith st b ty right alias on tolerance =
     (let leftExprs = buildColumnExprs (sb_def b) None;
          rightExprs = buildColumnExprs right (Some alias)
      in case (case on of
                 Some f \<Rightarrow> bindE (f leftExprs rightExprs) (\<lambda>x. Inr (Some x))
               | None \<Rightarrow> Inr None) of
           Inl e \<Rightarrow> (st, Inl e)
         | Inr onExpr \<Rightarrow>
             returned (new_SelectBuilder st (sb_def b)
               ((as_patch (node_of st b))\<lparr>p_joins := Some (s_joins (node_of st b) @
                  [JoinClause ty (FromTable (name right) (Some alias)) onExpr tolerance])\<rparr>)))"

definition asofJoin ::
  "'n store \<Rightarrow> 'n SelectBuilder \<Rightarrow> 'n TableDef \<Rightarrow> string
     \<Rightarrow> (ColumnExprs \<Rightarrow> ColumnExprs \<Rightarrow> error + 'n SqlExpr) option \<Rightarrow> string option
     \<Rightarrow> 'n store \<times> (error + 'n SelectBuilder)" where
  "asofJoin st b right alias on tolerance = joinWith st b ASOF right alias on tolerance"

definition ltJoin ::
  "'n store \<Rightarrow> 'n SelectBuilder \<Rightarrow> 'n TableDef \<Rightarrow> string
     \<Rightarrow> (ColumnExprs \<Rightarrow> ColumnExprs \<Rightarrow> error + 'n SqlExpr) option \<Rightarrow> string option
     \<Rightarrow> 'n store \<times> (error + 'n SelectBuilder)" where
  "ltJoin st b right alias on tolerance = joinWith st b LT right alias on tolerance"

definition spliceJoin ::
  "'n store \<Rightarrow> 'n SelectBuilder \<Rightarrow> 'n TableDef \<Rightarrow> string
     \<Rightarrow> (ColumnExprs \<Rightarrow> ColumnExprs \<Rightarrow> error + 'n SqlExpr) option
     \<Rightarrow> 'n store \<times> (error + 'n SelectBuilder)" where
  "spliceJoin st b right alias on = joinWith st b SPLICE right alias on None"

definition innerJoin ::
  "'n store \<Rightarrow> 'n SelectBuilder \<Rightarrow> 'n TableDef \<Rightarrow> string
     \<Rightarrow> (ColumnExprs \<Rightarrow> ColumnExprs \<Rightarrow> error + 'n SqlExpr)
     \<Rightarrow> 'n store \<times> (error + 'n SelectBuilder)" where
  "innerJoin st b right alias on = joinWith st b INNER right alias (Some on) None"

definition leftJoin ::
  "'n store \<Rightarrow> 'n SelectBuilder \<Rightarrow> 'n TableDef \<Rightarrow> string
     \<Rightarrow> (ColumnExprs \<Rightarrow> ColumnExprs \<Rightarrow> error + 'n SqlExpr)
     \<Rightarrow> 'n store \<times> (error + 'n SelectBuilder)" where
  "leftJoin st b right alias on = joinWith st b LEFT right alias (Some on) None"

definition crossJoin ::
  "'n store \<Rightarrow> 'n SelectBuilder \<Rightarrow> 'n TableDef \<Rightarrow> string
     \<Rightarrow> 'n store \<times> (error + 'n SelectBuilder)" where
  "crossJoin st b right alias = joinWith st b CROSS right alias None None"

text \<open>\<^verbatim>\<open>orderBy\<close>: the direction defaults to \<^verbatim>\<open>"ASC"\<close>.\<close>

definition orderBy ::
  "'n store \<Rightarrow> 'n SelectBuilder \<Rightarrow> string \<Rightarrow> direction option \<Rightarrow> 'n store \<times> 'n SelectBuilder" where
  "orderBy st b column dir =
     clone st b (no_patch\<lparr>p_orderBy := Some (s_orderBy (node_of st b) @
       [(Column None column, (case dir of None \<Rightarrow> ASC | Some d \<Rightarrow> d))])\<rparr>)"

definition limit ::
  "'n store \<Rightarrow> 'n SelectBuilder \<Rightarrow> 'n \<Rightarrow> 'n option \<Rightarrow> 'n store \<times> 'n SelectBuilder" where
  "limit st b cnt off =
     clone st b (no_patch\<lparr>p_limit := Some (Some \<lparr>limit_count = cnt, limit_offset = off\<rparr>)\<rparr>)"

definition groupBy ::
  "'n store \<Rightarrow> 'n SelectBuilder \<Rightarrow> string list \<Rightarrow> 'n store \<times> 'n SelectBuilder" where
  "groupBy st b cols =
     clone st b (no_patch\<lparr>p_groupBy := Some (map (\<lambda>c. Column None c) cols)\<rparr>)"

definition select_toSQL :: "'n host \<Rightarrow> 'n store \<Rightarrow> 'n SelectBuilder \<Rightarrow> error + string" where
  "select_toSQL H st b =
     (if s_sampleBy (node_of st b) \<noteq> None \<and> length (s_columns (node_of st b)) = 0
      then Inl (Error (''SAMPLE BY requires explicit columns with at least one aggregation function. ''
                       @ ''Use .columns() and .addExpr(fn.avg(...)) instead of SELECT *.''))
      else serializeSelect H (node_of st b))"

text \<open>A chained call with its arguments, and the method each one invokes.\<close>

datatype 'n select_call =
    CallDistinct
  | CallColumns "string list"
  | CallAddExpr "'n SqlExpr" "string option"
  | CallWhere "ColumnExprs \<Rightarrow> error + 'n SqlExpr"
  | CallAndWhere "ColumnExprs \<Rightarrow> error + 'n SqlExpr"
  | CallWhereTimestamp string string
  | CallOrderBy string "direction option"
  | CallLimit 'n "'n option"
  | CallGroupBy "string list"
  | CallSampleBy string "'n fill_arg" "align_mode option"
  | CallLatestOn "string list"
  | CallAsofJoin "'n TableDef" string
      "(ColumnExprs \<Rightarrow> ColumnExprs \<Rightarrow> error + 'n SqlExpr) option" "string option"
  | CallLtJoin "'n TableDef" string
      "(ColumnExprs \<Rightarrow> ColumnExprs \<Rightarrow> error + 'n SqlExpr) option" "string option"
  | CallSpliceJoin "'n TableDef" string
      "(ColumnExprs \<Rightarrow> ColumnExprs \<Rightarrow> error + 'n SqlExpr) option"
  | CallInnerJoin "'n TableDef" string "ColumnExprs \<Rightarrow> ColumnExprs \<Rightarrow> error + 'n SqlExpr"
  | CallLeftJoin "'n TableDef" string "ColumnExprs \<Rightarrow> ColumnExprs \<Rightarrow> error + 'n SqlExpr"
  | CallCrossJoin "'n TableDef" string

fun invoke ::
  "'n store \<Rightarrow> 'n SelectBuilder \<Rightarrow> 'n select_call \<Rightarrow> 'n store \<times> (error + 'n SelectBuilder)" where
  "invoke st b CallDistinct = returned (select_distinct st b)"
| "invoke st b (CallColumns cols) = returned (select_columns st b cols)"
| "invoke st b (CallAddExpr e alias) = returned (addExpr st b e alias)"
| "invoke st b (CallWhere fn) = select_where st b fn"
| "invoke st b (CallAndWhere fn) = andWhere st b fn"
| "invoke st b (CallWhereTimestamp c iv) = returned (whereTimestamp st b c iv)"
| "invoke st b (CallOrderBy c d) = returned (orderBy st b c d)"
| "invoke st b (CallLimit cnt off) = returned (limit st b cnt off)"
| "invoke st b (CallGroupBy cols) = returned (groupBy st b cols)"
| "invoke st b (CallSampleBy iv fl al) = returned (sampleBy st b iv fl al)"
| "invoke st b (CallLatestOn parts) = latestOn st b parts"
| "invoke st b (CallAsofJoin r a on tol) = asofJoin st b r a on tol"
| "invoke st b (CallLtJoin r a on tol) = ltJoin st b r a on tol"
| "invoke st b (CallSpliceJoin r a on) = spliceJoin st b r a on"
| "invoke st b (CallInnerJoin r a on) = innerJoin st b r a on"
| "invoke st b (CallLeftJoin r a on) = leftJoin st b r a on"
| "invoke st b (CallCrossJoin r a) = crossJoin st b r a"

text \<open>
  The error a call throws, if it throws: the error of its callback, or, for \<^verbatim>\<open>latestOn\<close>, the
  error for a table whose designated column is absent or has the empty name.
\<close>

definition callback_error :: "error + 'a \<Rightarrow> error option" where
  "callback_error r = (case r of Inl e \<Rightarrow> Some e | Inr x \<Rightarrow> None)"

definition join_error ::
  "'n SelectBuilder \<Rightarrow> 'n TableDef \<Rightarrow> string
     \<Rightarrow> (ColumnExprs \<Rightarrow> ColumnExprs \<Rightarrow> error + 'n SqlExpr) option \<Rightarrow> error option" where
  "join_error b right alias on =
     (case on of
        None \<Rightarrow> None
      | Some f \<Rightarrow>
          callback_error (f (buildColumnExprs (sb_def b) None) (buildColumnExprs right (Some alias))))"

definition call_error :: "'n SelectBuilder \<Rightarrow> 'n select_call \<Rightarrow> error option" where
  "call_error b c =
     (case c of
        CallWhere fn \<Rightarrow> callback_error (fn (buildColumnExprs (sb_def b) None))
      | CallAndWhere fn \<Rightarrow> callback_error (fn (buildColumnExprs (sb_def b) None))
      | CallLatestOn parts \<Rightarrow>
          (if str_truthy (findDesignatedColumn (columns (sb_def b))) then None
           else Some (Error ''LATEST ON requires a designated timestamp column''))
      | CallAsofJoin r a on tol \<Rightarrow> join_error b r a on
      | CallLtJoin r a on tol \<Rightarrow> join_error b r a on
      | CallSpliceJoin r a on \<Rightarrow> join_error b r a on
      | CallInnerJoin r a on \<Rightarrow> join_error b r a (Some on)
      | CallLeftJoin r a on \<Rightarrow> join_error b r a (Some on)
      | _ \<Rightarrow> None)"

text \<open>The fields of a \<^verbatim>\<open>SelectNode\<close>, the one each call is about, and the fields a patch sets.\<close>

datatype field =
    F_distinct | F_columns | F_from | F_joins | F_where | F_groupBy | F_orderBy | F_limit
  | F_sampleBy | F_latestOn

fun clause_of :: "'n select_call \<Rightarrow> field" where
  "clause_of CallDistinct = F_distinct"
| "clause_of (CallColumns cols) = F_columns"
| "clause_of (CallAddExpr e alias) = F_columns"
| "clause_of (CallWhere fn) = F_where"
| "clause_of (CallAndWhere fn) = F_where"
| "clause_of (CallWhereTimestamp c iv) = F_where"
| "clause_of (CallOrderBy c d) = F_orderBy"
| "clause_of (CallLimit cnt off) = F_limit"
| "clause_of (CallGroupBy cols) = F_groupBy"
| "clause_of (CallSampleBy iv fl al) = F_sampleBy"
| "clause_of (CallLatestOn parts) = F_latestOn"
| "clause_of (CallAsofJoin r a on tol) = F_joins"
| "clause_of (CallLtJoin r a on tol) = F_joins"
| "clause_of (CallSpliceJoin r a on) = F_joins"
| "clause_of (CallInnerJoin r a on) = F_joins"
| "clause_of (CallLeftJoin r a on) = F_joins"
| "clause_of (CallCrossJoin r a) = F_joins"

definition patch_fields :: "'n SelectPatch \<Rightarrow> field list" where
  "patch_fields p =
     (if p_distinct p = None then [] else [F_distinct])
     @ (if p_columns p = None then [] else [F_columns])
     @ (if p_from p = None then [] else [F_from])
     @ (if p_joins p = None then [] else [F_joins])
     @ (if p_where p = None then [] else [F_where])
     @ (if p_groupBy p = None then [] else [F_groupBy])
     @ (if p_orderBy p = None then [] else [F_orderBy])
     @ (if p_limit p = None then [] else [F_limit])
     @ (if p_sampleBy p = None then [] else [F_sampleBy])
     @ (if p_latestOn p = None then [] else [F_latestOn])"

text \<open>Two nodes with the same value in every field but \<open>f\<close>.\<close>

definition same_but :: "field \<Rightarrow> 'n SelectNode \<Rightarrow> 'n SelectNode \<Rightarrow> bool" where
  "same_but f m n =
     ((f = F_distinct \<or> s_distinct m = s_distinct n)
      \<and> (f = F_columns \<or> s_columns m = s_columns n)
      \<and> (f = F_from \<or> s_from m = s_from n)
      \<and> (f = F_joins \<or> s_joins m = s_joins n)
      \<and> (f = F_where \<or> s_where m = s_where n)
      \<and> (f = F_groupBy \<or> s_groupBy m = s_groupBy n)
      \<and> (f = F_orderBy \<or> s_orderBy m = s_orderBy n)
      \<and> (f = F_limit \<or> s_limit m = s_limit n)
      \<and> (f = F_sampleBy \<or> s_sampleBy m = s_sampleBy n)
      \<and> (f = F_latestOn \<or> s_latestOn m = s_latestOn n))"

section \<open>\<^verbatim>\<open>types/result.ts\<close>: decoding a response\<close>

definition js_whitespace :: "char \<Rightarrow> bool" where
  "js_whitespace c = (c \<in> set [CHR 0x09, CHR 0x0A, CHR 0x0B, CHR 0x0C, CHR 0x0D, CHR 0x20, CHR 0xA0])"

definition trim :: "string \<Rightarrow> string" where
  "trim s = rev (dropWhile js_whitespace (rev (dropWhile js_whitespace s)))"

definition digit_of :: "char \<Rightarrow> nat option" where
  "digit_of c =
     map_of (zip ''0123456789abcdef'' [0 ..< 16] @ zip ''ABCDEF'' [10 ..< 16]) c"

fun parse_digits :: "nat \<Rightarrow> string \<Rightarrow> nat \<Rightarrow> nat option" where
  "parse_digits radix [] acc = Some acc"
| "parse_digits radix (c # cs) acc =
     (case digit_of c of
        None \<Rightarrow> None
      | Some d \<Rightarrow> if d < radix then parse_digits radix cs (acc * radix + d) else None)"

definition parse_nat :: "nat \<Rightarrow> string \<Rightarrow> int option" where
  "parse_nat radix ds = (if ds = [] then None else map_option int (parse_digits radix ds 0))"

text \<open>
  \<^verbatim>\<open>BigInt(s)\<close> for a string \<open>s\<close> (StringToBigInt of the language standard): white space is
  trimmed; the empty string is zero; a \<^verbatim>\<open>0x\<close>, \<^verbatim>\<open>0o\<close> or \<^verbatim>\<open>0b\<close> prefix selects the radix and
  admits no sign; otherwise an optional sign and decimal digits.  \<open>None\<close> is the
  \<^verbatim>\<open>SyntaxError\<close>.
\<close>

definition StringToBigInt :: "string \<Rightarrow> int option" where
  "StringToBigInt s =
     (let t = trim s in
      if t = [] then Some 0
      else if take 2 t = ''0x'' \<or> take 2 t = ''0X'' then parse_nat 16 (drop 2 t)
      else if take 2 t = ''0o'' \<or> take 2 t = ''0O'' then parse_nat 8 (drop 2 t)
      else if take 2 t = ''0b'' \<or> take 2 t = ''0B'' then parse_nat 2 (drop 2 t)
      else if hd t = CHR ''-'' then map_option uminus (parse_nat 10 (tl t))
      else if hd t = CHR ''+'' then parse_nat 10 (tl t)
      else parse_nat 10 t)"

text \<open>
  \<^verbatim>\<open>toUpperCase\<close>, on the letters \<^verbatim>\<open>a\<close> to \<^verbatim>\<open>z\<close>.  Of the other code units below 256 only the
  sharp s becomes ASCII letters (\<^verbatim>\<open>SS\<close>), and none of the names the \<^verbatim>\<open>switch\<close> compares with
  contains them, so the case taken is the same.
\<close>

definition upper_char :: "char \<Rightarrow> char" where
  "upper_char c =
     (case map_of (zip ''abcdefghijklmnopqrstuvwxyz'' ''ABCDEFGHIJKLMNOPQRSTUVWXYZ'') c of
        None \<Rightarrow> c | Some u \<Rightarrow> u)"

definition toUpperCase :: "string \<Rightarrow> string" where
  "toUpperCase s = map upper_char s"

definition coerceValue :: "'n host \<Rightarrow> 'n jsval \<Rightarrow> string \<Rightarrow> error + 'n jsval" where
  "coerceValue H v questdbType =
     (if v = JNull \<or> v = JUndefined then Inr JNull
      else let t = toUpperCase questdbType in
        if t = ''TIMESTAMP'' \<or> t = ''DATE'' then Inr (JDate (dateParse H v))
        else if t = ''LONG'' \<or> t = ''TIMESTAMP_NS'' \<or> t = ''LONG256'' then
          (case v of
             JStr s \<Rightarrow>
               (case StringToBigInt s of
                  None \<Rightarrow> Inl SyntaxError
                | Some i \<Rightarrow> Inr (JBigInt i))
           | JNum n \<Rightarrow>
               (case numToBigInt H n of
                  None \<Rightarrow> Inl RangeError
                | Some i \<Rightarrow> Inr (JBigInt i))
           | _ \<Rightarrow> Inr v)
        else if t = ''BOOLEAN'' then Inr (JBool (js_truthy H v))
        else if t = ''BYTE'' \<or> t = ''SHORT'' \<or> t = ''INT'' \<or> t = ''FLOAT'' \<or> t = ''DOUBLE''
          then Inr (JNum (toNumber H v))
        else if t = ''BINARY'' then
          (case v of
             JStr s \<Rightarrow>
               (case atob H s of
                  None \<Rightarrow> Inl InvalidCharacterError
                | Some bin \<Rightarrow> Inr (JBytes (map of_char bin)))
           | _ \<Rightarrow> Inr v)
        else Inr v)"

section \<open>Reference renderings and example data\<close>

text \<open>
  The text of a left-associative, fully parenthesized chain over already rendered operands:
  \<open>chain_text ''AND'' [a, b, c]\<close> is \<^verbatim>\<open>((a AND b) AND c)\<close>.
\<close>

fun chain_text :: "string \<Rightarrow> string list \<Rightarrow> string" where
  "chain_text op [] = []"
| "chain_text op (s # ss) = foldl (\<lambda>acc x. ''('' @ acc @ '' '' @ op @ '' '' @ x @ '')'') s ss"

text \<open>
  A host for evaluating examples, with the integers as its numbers: it renders them in
  decimal, interprets neither dates nor base64, and prints a built-in function as
  \<^verbatim>\<open>function f() { [native code] }\<close>.
\<close>

definition int_host :: "int host" where
  "int_host =
     \<lparr>numToString = show_int,
      numTruthy = (\<lambda>n. n \<noteq> 0),
      numToBigInt = Some,
      toNumber = (\<lambda>v. case v of JNum n \<Rightarrow> n | JBigInt i \<Rightarrow> i
                            | JBool b \<Rightarrow> (if b then 1 else 0) | _ \<Rightarrow> 0),
      dateToISOString = show_int,
      dateToString = show_int,
      dateParse = (\<lambda>v. None),
      atob = (\<lambda>s. None),
      functionToString = (\<lambda>nm. ''function '' @ nm @ ''() { [native code] }'')\<rparr>"

text \<open>The table of the repository's tests and sample.\<close>

definition plain_meta :: "int ColumnMeta" where
  "plain_meta = \<lparr>designated = None, symbolCapacity = None, symbolCache = None,
     symbolIndex = None, symbolIndexCapacity = None, geohashBits = None, geohashUnit = None,
     arrayType = None\<rparr>"

definition q_column :: "QuestDBType \<Rightarrow> int QColumn" where
  "q_column t = \<lparr>qdbType = t, meta = plain_meta\<rparr>"

definition q_timestamp_designated :: "int QColumn" where
  "q_timestamp_designated = \<lparr>qdbType = QTimestamp, meta = plain_meta\<lparr>designated := Some True\<rparr>\<rparr>"

definition table_of :: "string \<Rightarrow> (string \<times> int QColumn) list \<Rightarrow> int TableDef" where
  "table_of nm cols = \<lparr>name = nm, columns = cols, partitionBy_def = ''DAY'', wal = True,
     dedupKeys = [], ttl = None, maxUncommittedRows = None, o3MaxLag = None\<rparr>"

definition energy_readings :: "int TableDef" where
  "energy_readings = table_of ''energy_readings''
     [(''ts'', q_timestamp_designated), (''source'', q_column QSymbol),
      (''reading'', q_column QSymbol), (''power_kw'', q_column QDouble),
      (''energy_kwh'', q_column QDouble), (''meter_active'', q_column QBoolean)]"

text \<open>
  The change each call makes when it does not throw, as a patch: what the call hands to
  \<^verbatim>\<open>clone\<close>, or, for \<^verbatim>\<open>columns\<close> and the joins, the field it puts after the spread of the present
  node.  \<open>projr\<close> takes the expression a callback returned.
\<close>

definition join_patch ::
  "'n store \<Rightarrow> 'n SelectBuilder \<Rightarrow> JoinType \<Rightarrow> 'n TableDef \<Rightarrow> string
     \<Rightarrow> (ColumnExprs \<Rightarrow> ColumnExprs \<Rightarrow> error + 'n SqlExpr) option \<Rightarrow> string option
     \<Rightarrow> 'n SelectPatch" where
  "join_patch st b ty right alias on tolerance =
     no_patch\<lparr>p_joins := Some (s_joins (node_of st b) @
       [JoinClause ty (FromTable (name right) (Some alias))
          (case on of
             Some f \<Rightarrow>
               Some (projr (f (buildColumnExprs (sb_def b) None)
                              (buildColumnExprs right (Some alias))))
           | None \<Rightarrow> None)
          tolerance])\<rparr>"

definition call_patch :: "'n store \<Rightarrow> 'n SelectBuilder \<Rightarrow> 'n select_call \<Rightarrow> 'n SelectPatch" where
  "call_patch st b c =
     (case c of
        CallDistinct \<Rightarrow> no_patch\<lparr>p_distinct := Some True\<rparr>
      | CallColumns cols \<Rightarrow>
          no_patch\<lparr>p_columns := Some (map (\<lambda>c. (Column None c, None)) cols)\<rparr>
      | CallAddExpr e alias \<Rightarrow>
          no_patch\<lparr>p_columns := Some (s_columns (node_of st b) @ [(e, alias)])\<rparr>
      | CallWhere fn \<Rightarrow>
          no_patch\<lparr>p_where := Some (Some (projr (fn (buildColumnExprs (sb_def b) None))))\<rparr>
      | CallAndWhere fn \<Rightarrow>
          no_patch\<lparr>p_where := Some (Some (and_where (s_where (node_of st b))
            (projr (fn (buildColumnExprs (sb_def b) None)))))\<rparr>
      | CallWhereTimestamp col iv \<Rightarrow>
          no_patch\<lparr>p_where := Some (Some (and_where (s_where (node_of st b))
            (Timestamp_in col iv)))\<rparr>
      | CallOrderBy col d \<Rightarrow>
          no_patch\<lparr>p_orderBy := Some (s_orderBy (node_of st b) @
            [(Column None col, (case d of None \<Rightarrow> ASC | Some d \<Rightarrow> d))])\<rparr>
      | CallLimit cnt off \<Rightarrow>
          no_patch\<lparr>p_limit := Some (Some \<lparr>limit_count = cnt, limit_offset = off\<rparr>)\<rparr>
      | CallGroupBy cols \<Rightarrow> no_patch\<lparr>p_groupBy := Some (map (\<lambda>c. Column None c) cols)\<rparr>
      | CallSampleBy iv fl al \<Rightarrow>
          no_patch\<lparr>p_sampleBy := Some (Some \<lparr>interval = iv, fill = fillArr fl, align = al\<rparr>)\<rparr>
      | CallLatestOn parts \<Rightarrow>
          no_patch\<lparr>p_latestOn := Some (Some
            \<lparr>timestamp = the (findDesignatedColumn (columns (sb_def b))), partitionBy = parts\<rparr>)\<rparr>
      | CallAsofJoin r a on tol \<Rightarrow> join_patch st b ASOF r a on tol
      | CallLtJoin r a on tol \<Rightarrow> join_patch st b LT r a on tol
      | CallSpliceJoin r a on \<Rightarrow> join_patch st b SPLICE r a on None
      | CallInnerJoin r a on \<Rightarrow> join_patch st b INNER r a (Some on) None
      | CallLeftJoin r a on \<Rightarrow> join_patch st b LEFT r a (Some on) None
      | CallCrossJoin r a \<Rightarrow> join_patch st b CROSS r a None None)"

text \<open>A builder on the example table, as \<^verbatim>\<open>table.select()\<close> creates it in an empty store.\<close>

definition readings_store :: "int store" where
  "readings_store = fst (new_SelectBuilder [] energy_readings no_patch)"

definition readings_select :: "int SelectBuilder" where
  "readings_select = snd (new_SelectBuilder [] energy_readings no_patch)"

text \<open>The errors \<^verbatim>\<open>formatValue\<close> can throw.\<close>

definition format_error :: "error \<Rightarrow> bool" where
  "format_error e =
     (e = Error ''Binary values cannot be inserted via SQL; use the /imp endpoint''
      \<or> (\<exists>s. e = Error (''Expected array value, got '' @ s))
      \<or> e = RangeError)"

text \<open>
  The text of an INSERT statement for a table, its column names and, for each row, the texts
  of its cells.
\<close>

definition insert_text :: "string \<Rightarrow> string list \<Rightarrow> string list list \<Rightarrow> string" where
  "insert_text tbl cols cellTexts =
     join [CHR 0x0A]
       [''INSERT INTO '' @ escapeIdentifier tbl,
        ''('' @ join '', '' (map escapeIdentifier cols) @ '')'',
        ''VALUES'',
        join ('','' @ [CHR 0x0A]) (map (\<lambda>cells. ''('' @ join '', '' cells @ '')'') cellTexts)]"

text \<open>A row of the example table without its designated timestamp, and the builder holding it.\<close>

definition solar_row :: "int row" where
  "solar_row =
     [(''meter_active'', JBool True), (''source'', JStr ''solar''), (''power_kw'', JNum 48)]"

definition solar_insert :: "int InsertBuilder" where
  "solar_insert = values_row (new_InsertBuilder energy_readings) solar_row"

text \<open>A table whose designated timestamp column has the empty string as its name.\<close>

definition unnamed_ts :: "int TableDef" where
  "unnamed_ts = table_of ''t'' [('''', q_timestamp_designated), (''v'', q_column QDouble)]"

text \<open>
  A table whose designated timestamp column is named \<^verbatim>\<open>constructor\<close>, and a builder holding
  the row \<^verbatim>\<open>{v: 1}\<close>, which omits that column.
\<close>

definition constructor_ts :: "int TableDef" where
  "constructor_ts =
     table_of ''t'' [(''constructor'', q_timestamp_designated), (''v'', q_column QDouble)]"

definition constructor_insert :: "int InsertBuilder" where
  "constructor_insert = values_row (new_InsertBuilder constructor_ts) [(''v'', JNum 1)]"

section \<open>Literal formatting and identifier escaping\<close>

text \<open>
  C3.  For every column type, \<^verbatim>\<open>binary\<close> and \<^verbatim>\<open>array\<close> included, \<^verbatim>\<open>formatValue\<close> of \<^verbatim>\<open>null\<close> and of
  \<^verbatim>\<open>undefined\<close> returns the text \<^verbatim>\<open>NULL\<close>; it does not throw.
\<close>

theorem formatValue_null:
  "formatValue H JNull t = Inr ''NULL'' \<and> formatValue H JUndefined t = Inr ''NULL''"
  by (simp add: formatValue_def)

lemma quote_not_ident_start: "\<not> ident_start (CHR 0x22)"
  by (simp add: ident_start_def)

lemma length_double_char: "length xs \<le> length (double_char q xs)"
  by (induction xs) auto

lemma requote_differs:
  "CHR 0x22 # double_char (CHR 0x22) (CHR 0x22 # ys @ [CHR 0x22]) @ [CHR 0x22]
     \<noteq> CHR 0x22 # ys @ [CHR 0x22]"
proof
  assume h: "CHR 0x22 # double_char (CHR 0x22) (CHR 0x22 # ys @ [CHR 0x22]) @ [CHR 0x22]
     = CHR 0x22 # ys @ [CHR 0x22]"
  have "length (CHR 0x22 # ys @ [CHR 0x22])
          \<le> length (double_char (CHR 0x22) (CHR 0x22 # ys @ [CHR 0x22]))"
    by (rule length_double_char)
  moreover have "length (CHR 0x22 # double_char (CHR 0x22) (CHR 0x22 # ys @ [CHR 0x22]) @ [CHR 0x22])
          = length (CHR 0x22 # ys @ [CHR 0x22])"
    using h by simp
  ultimately show False by simp
qed

text \<open>
  C4, as stated, at the identifier \<^verbatim>\<open>a\<close>: it matches the pattern, so it did not require
  quoting, and escaping it twice equals escaping it once.  The claim has this equality
  false unless the identifier required quoting.
\<close>

theorem escapeIdentifier_idempotent_on_safe:
  "\<not> (safe_identifier ''a'' \<longrightarrow>
        escapeIdentifier (escapeIdentifier ''a'') \<noteq> escapeIdentifier ''a'')"
  by (simp add: escapeIdentifier_def ident_start_def)

text \<open>
  C4, amended.  An identifier matching the pattern passes through unchanged; any other is
  wrapped in double quotes with its double quotes doubled; and escaping twice equals
  escaping once exactly when the identifier matches the pattern, so on an identifier that
  required quoting the second escape changes the result again.
\<close>

theorem escapeIdentifier_spec:
  "(safe_identifier x \<longrightarrow> escapeIdentifier x = x)
   \<and> (\<not> safe_identifier x \<longrightarrow>
        escapeIdentifier x = CHR 0x22 # double_char (CHR 0x22) x @ [CHR 0x22])
   \<and> (escapeIdentifier (escapeIdentifier x) = escapeIdentifier x \<longleftrightarrow> safe_identifier x)"
  using requote_differs[of "double_char (CHR 0x22) x"]
  by (auto simp: escapeIdentifier_def quote_not_ident_start simp del: double_char.simps)

theorem escapeIdentifier_spec_witness:
  "safe_identifier ''power_kw'' \<and> escapeIdentifier ''power_kw'' = ''power_kw''
   \<and> \<not> safe_identifier ''a b'' \<and> escapeIdentifier ''a b'' = [CHR 0x22] @ ''a b'' @ [CHR 0x22]
   \<and> escapeIdentifier (escapeIdentifier ''a b'') \<noteq> escapeIdentifier ''a b''"
  using escapeIdentifier_spec[of "''power_kw''"] escapeIdentifier_spec[of "''a b''"]
  by (simp add: escapeIdentifier_def ident_start_def ident_char_def)

section \<open>Logical combinators\<close>

lemma chain_text_example: "chain_text ''AND'' [''a'', ''b'', ''c''] = ''((a AND b) AND c)''"
  by simp

lemma serializeExpr_chain:
  "serializeExpr H (foldl (combine op) e es) =
     bindE (serializeExpr H e) (\<lambda>a. bindE (serializeExprs H es) (\<lambda>as.
       Inr (foldl (\<lambda>acc x. ''('' @ acc @ '' '' @ op @ '' '' @ x @ '')'') a as)))"
proof (induction es arbitrary: e)
  case Nil
  show ?case by (simp add: bindE_def split: sum.splits)
next
  case (Cons x xs)
  show ?case
    by (simp add: Cons.IH) (simp add: combine_def bindE_def split: sum.splits)
qed

lemma serializeExpr_chain_text:
  "serializeExpr H (foldl (combine op) e1 (e2 # es)) =
     bindE (serializeExprs H (e1 # e2 # es)) (\<lambda>ss. Inr (chain_text op ss))"
proof -
  have "serializeExpr H (foldl (combine op) e1 (e2 # es)) =
        bindE (serializeExpr H e1) (\<lambda>a. bindE (serializeExprs H (e2 # es)) (\<lambda>as.
          Inr (foldl (\<lambda>acc x. ''('' @ acc @ '' '' @ op @ '' '' @ x @ '')'') a as)))"
    by (rule serializeExpr_chain)
  also have "\<dots> = bindE (serializeExprs H (e1 # e2 # es)) (\<lambda>ss. Inr (chain_text op ss))"
    by (simp add: bindE_def split: sum.splits)
  finally show ?thesis .
qed

lemma foldl_combine: "foldl (combine op) e es = foldl (\<lambda>acc x. Binary op acc x) e es"
  by (induction es arbitrary: e) (simp_all add: combine_def)

text \<open>
  C2.  \<^verbatim>\<open>and()\<close> and \<^verbatim>\<open>or()\<close> with no argument throw their argument-count error; with one
  argument they return it; with two or more they return the left fold into a binary chain;
  and serializing that chain gives the fully parenthesized left-associative text of the
  serialized operands (or the first error one of the operands raises).
\<close>

theorem and_or_combinators:
  "and_exprs [] = Inl (Error ''and() requires at least one expression'')
   \<and> or_exprs [] = Inl (Error ''or() requires at least one expression'')
   \<and> and_exprs [e] = Inr e
   \<and> or_exprs [e] = Inr e
   \<and> and_exprs (e1 # e2 # es) = Inr (foldl (\<lambda>acc x. Binary ''AND'' acc x) e1 (e2 # es))
   \<and> or_exprs (e1 # e2 # es) = Inr (foldl (\<lambda>acc x. Binary ''OR'' acc x) e1 (e2 # es))
   \<and> bindE (and_exprs (e1 # e2 # es)) (serializeExpr H)
       = bindE (serializeExprs H (e1 # e2 # es)) (\<lambda>ss. Inr (chain_text ''AND'' ss))
   \<and> bindE (or_exprs (e1 # e2 # es)) (serializeExpr H)
       = bindE (serializeExprs H (e1 # e2 # es)) (\<lambda>ss. Inr (chain_text ''OR'' ss))"
proof -
  have a: "and_exprs (e1 # e2 # es) = Inr (foldl (combine ''AND'') e1 (e2 # es))"
    by simp
  have b: "or_exprs (e1 # e2 # es) = Inr (foldl (combine ''OR'') e1 (e2 # es))"
    by simp
  have c: "bindE (and_exprs (e1 # e2 # es)) (serializeExpr H)
       = bindE (serializeExprs H (e1 # e2 # es)) (\<lambda>ss. Inr (chain_text ''AND'' ss))"
    unfolding a by (simp only: bindE_def sum.case serializeExpr_chain_text)
  have d: "bindE (or_exprs (e1 # e2 # es)) (serializeExpr H)
       = bindE (serializeExprs H (e1 # e2 # es)) (\<lambda>ss. Inr (chain_text ''OR'' ss))"
    unfolding b by (simp only: bindE_def sum.case serializeExpr_chain_text)
  show ?thesis
    using c d by (simp only: a b foldl_combine and_exprs.simps or_exprs.simps simp_thms)
qed

section \<open>INSERT serialization\<close>

text \<open>
  C7.  \<^verbatim>\<open>serializeInsert\<close> of a node whose row matrix is empty throws the error
  \<^verbatim>\<open>INSERT requires at least one row\<close>, whatever the other fields; no text is returned.
\<close>

theorem serializeInsert_no_rows:
  "serializeInsert H (node\<lparr>i_values := []\<rparr>) = Inl (Error ''INSERT requires at least one row'')"
  by (simp add: serializeInsert_def)

section \<open>The SELECT builder\<close>

lemma overlay_as_patch: "overlay d (as_patch n) = n"
  by (simp add: overlay_def as_patch_def pick_def)

lemma new_SelectBuilder_full:
  "new_SelectBuilder st def (as_patch n) = (st @ [n], \<lparr>sb_node = length st, sb_def = def\<rparr>)"
  by (simp add: new_SelectBuilder_def overlay_as_patch)

lemma clone_eq:
  "clone st b p = (st @ [overlay (node_of st b) p], \<lparr>sb_node = length st, sb_def = sb_def b\<rparr>)"
  by (simp add: clone_def new_SelectBuilder_full)

lemma as_patch_update_columns:
  "(as_patch n)\<lparr>p_columns := Some x\<rparr> = as_patch (overlay n (no_patch\<lparr>p_columns := Some x\<rparr>))"
  by (simp add: as_patch_def overlay_def no_patch_def pick_def)

lemma as_patch_update_joins:
  "(as_patch n)\<lparr>p_joins := Some x\<rparr> = as_patch (overlay n (no_patch\<lparr>p_joins := Some x\<rparr>))"
  by (simp add: as_patch_def overlay_def no_patch_def pick_def)

lemma select_columns_eq:
  "select_columns st b cols =
     clone st b (no_patch\<lparr>p_columns := Some (map (\<lambda>c. (Column None c, None)) cols)\<rparr>)"
  by (simp add: select_columns_def clone_def as_patch_update_columns)

lemma joinWith_eq:
  "joinWith st b ty right alias on tolerance =
     (case join_error b right alias on of
        Some e \<Rightarrow> (st, Inl e)
      | None \<Rightarrow> returned (clone st b (join_patch st b ty right alias on tolerance)))"
proof (cases on)
  case None
  then show ?thesis
    by (simp add: joinWith_def join_error_def clone_def as_patch_update_joins join_patch_def
        Let_def)
next
  case (Some f)
  then show ?thesis
    by (cases "f (buildColumnExprs (sb_def b) None) (buildColumnExprs right (Some alias))")
       (simp_all add: joinWith_def join_error_def callback_error_def bindE_def clone_def
         as_patch_update_joins join_patch_def Let_def)
qed

lemma select_where_eq:
  "select_where st b fn =
     (case callback_error (fn (buildColumnExprs (sb_def b) None)) of
        Some e \<Rightarrow> (st, Inl e)
      | None \<Rightarrow> returned (clone st b (call_patch st b (CallWhere fn))))"
  by (cases "fn (buildColumnExprs (sb_def b) None)")
     (simp_all add: select_where_def callback_error_def call_patch_def Let_def)

lemma andWhere_eq:
  "andWhere st b fn =
     (case callback_error (fn (buildColumnExprs (sb_def b) None)) of
        Some e \<Rightarrow> (st, Inl e)
      | None \<Rightarrow> returned (clone st b (call_patch st b (CallAndWhere fn))))"
  by (cases "fn (buildColumnExprs (sb_def b) None)")
     (simp_all add: andWhere_def callback_error_def call_patch_def Let_def)

lemma latestOn_eq:
  "latestOn st b parts =
     (if str_truthy (findDesignatedColumn (columns (sb_def b)))
      then returned (clone st b (call_patch st b (CallLatestOn parts)))
      else (st, Inl (Error ''LATEST ON requires a designated timestamp column'')))"
  by (simp add: latestOn_def call_patch_def returned_def Let_def split: prod.splits)

lemma invoke_eq:
  "invoke st b c =
     (case call_error b c of
        Some e \<Rightarrow> (st, Inl e)
      | None \<Rightarrow> returned (clone st b (call_patch st b c)))"
  by (cases c; hypsubst)
     (simp_all add: call_error_def select_where_eq andWhere_eq latestOn_eq joinWith_eq
       call_patch_def select_distinct_def select_columns_eq addExpr_def whereTimestamp_def
       orderBy_def limit_def groupBy_def sampleBy_def asofJoin_def ltJoin_def spliceJoin_def
       innerJoin_def leftJoin_def crossJoin_def join_error_def Let_def
       cong: option.case_cong)

lemma patch_fields_call: "patch_fields (call_patch st b c) = [clause_of c]"
  by (cases c) (simp_all add: call_patch_def patch_fields_def no_patch_def join_patch_def)

lemma same_but_overlay: "patch_fields p = [f] \<Longrightarrow> same_but f n (overlay n p)"
  by (auto simp: patch_fields_def same_but_def overlay_def pick_def split: if_splits)

lemma node_of_append: "sb_node b < length st \<Longrightarrow> node_of (st @ xs) b = node_of st b"
  by (simp add: node_of_def nth_append)

lemma node_of_new: "node_of (st @ [n]) \<lparr>sb_node = length st, sb_def = d\<rparr> = n"
  by (simp add: node_of_def)

lemma invoke_outcome:
  assumes call: "invoke st b c = (st', r)"
  shows "(call_error b c = None \<and> st' = st @ [overlay (node_of st b) (call_patch st b c)]
            \<and> r = Inr \<lparr>sb_node = length st, sb_def = sb_def b\<rparr>)
         \<or> (\<exists>e. call_error b c = Some e \<and> st' = st \<and> r = Inl e)"
  using call by (cases "call_error b c") (auto simp: invoke_eq returned_def clone_eq)

lemma invoke_frame:
  assumes live: "sb_node b < length st" and call: "invoke st b c = (st', r)"
  shows "take (length st) st' = st"
    and "node_of st' b = node_of st b"
    and "call_error b c = None \<longrightarrow> (\<exists>b'. r = Inr b')"
    and "\<forall>e. call_error b c = Some e \<longrightarrow> r = Inl e \<and> st' = st"
    and "\<forall>b'. r = Inr b' \<longrightarrow> sb_node b' = length st \<and> length st' = Suc (length st)
            \<and> sb_def b' = sb_def b
            \<and> node_of st' b' = overlay (node_of st b) (call_patch st b c)
            \<and> patch_fields (call_patch st b c) = [clause_of c]
            \<and> same_but (clause_of c) (node_of st b) (node_of st' b')"
proof -
  let ?p = "call_patch st b c"
  note cases = invoke_outcome[OF call]
  show "take (length st) st' = st" using cases by auto
  show "node_of st' b = node_of st b" using cases live by (auto simp: node_of_append)
  show "call_error b c = None \<longrightarrow> (\<exists>b'. r = Inr b')" using cases by auto
  show "\<forall>e. call_error b c = Some e \<longrightarrow> r = Inl e \<and> st' = st" using cases by auto
  show "\<forall>b'. r = Inr b' \<longrightarrow> sb_node b' = length st \<and> length st' = Suc (length st)
            \<and> sb_def b' = sb_def b
            \<and> node_of st' b' = overlay (node_of st b) (call_patch st b c)
            \<and> patch_fields (call_patch st b c) = [clause_of c]
            \<and> same_but (clause_of c) (node_of st b) (node_of st' b')"
  proof (intro allI impI)
    fix b' assume r: "r = Inr b'"
    with cases have st': "st' = st @ [overlay (node_of st b) ?p]"
      and b': "b' = \<lparr>sb_node = length st, sb_def = sb_def b\<rparr>" by auto
    have n: "node_of st' b' = overlay (node_of st b) ?p"
      unfolding st' b' by (rule node_of_new)
    have pf: "patch_fields ?p = [clause_of c]" by (rule patch_fields_call)
    show "sb_node b' = length st \<and> length st' = Suc (length st)
            \<and> sb_def b' = sb_def b
            \<and> node_of st' b' = overlay (node_of st b) (call_patch st b c)
            \<and> patch_fields (call_patch st b c) = [clause_of c]
            \<and> same_but (clause_of c) (node_of st b) (node_of st' b')"
      using n pf same_but_overlay[OF pf, of "node_of st b"] by (auto simp: st' b')
  qed
qed

lemma invoke_latestOn:
  assumes call: "invoke st b (CallLatestOn parts) = (st', r)"
    and d: "findDesignatedColumn (columns (sb_def b)) = Some d" "d \<noteq> []"
  shows "\<exists>b'. r = Inr b'
           \<and> s_latestOn (node_of st' b') = Some \<lparr>timestamp = d, partitionBy = parts\<rparr>"
  using call d
  by (auto simp: latestOn_def clone_eq node_of_def overlay_def pick_def no_patch_def)

lemma limit_orderBy_siblings:
  assumes live: "sb_node b < length st"
    and l: "limit st b n off = (st1, b1)"
    and ob: "orderBy st1 b col dir = (st2, b2)"
  shows "node_of st2 b = node_of st b
    \<and> s_limit (node_of st2 b1) = Some \<lparr>limit_count = n, limit_offset = off\<rparr>
    \<and> s_orderBy (node_of st2 b1) = s_orderBy (node_of st b)
    \<and> s_orderBy (node_of st2 b2)
        = s_orderBy (node_of st b) @ [(Column None col, (case dir of None \<Rightarrow> ASC | Some d \<Rightarrow> d))]
    \<and> s_limit (node_of st2 b2) = s_limit (node_of st b)
    \<and> sb_node b1 \<noteq> sb_node b \<and> sb_node b2 \<noteq> sb_node b \<and> sb_node b1 \<noteq> sb_node b2"
  using assms
  by (auto simp: limit_def orderBy_def clone_eq node_of_def nth_append overlay_def pick_def
      no_patch_def)

text \<open>
  C1.  Let builder \<open>b\<close> have its node in the store, and let a chained call \<open>c\<close> (\<^verbatim>\<open>distinct\<close>,
  \<^verbatim>\<open>columns\<close>, \<^verbatim>\<open>addExpr\<close>, \<^verbatim>\<open>where\<close>, \<^verbatim>\<open>andWhere\<close>, \<^verbatim>\<open>whereTimestamp\<close>, \<^verbatim>\<open>orderBy\<close>, \<^verbatim>\<open>limit\<close>, \<^verbatim>\<open>groupBy\<close>,
  \<^verbatim>\<open>sampleBy\<close>, \<^verbatim>\<open>latestOn\<close> or a join) end in the store \<open>st'\<close> with result \<open>r\<close>.  Then every node that
  existed keeps its value, the node of \<open>b\<close> among them.  The call returns a builder unless its
  callback throws or, for \<^verbatim>\<open>latestOn\<close>, the table has no designated column of a non-empty name;
  in those cases it throws that error and leaves the store as it was.  In particular
  \<^verbatim>\<open>latestOn\<close> on a table whose designated column \<open>d\<close> has a non-empty name returns a builder
  whose latest-on clause has \<open>d\<close> as its timestamp and the given partition columns.  A builder
  that is returned is new: its node is at a fresh address, is the node of \<open>b\<close> overlaid with
  the patch of the call, which sets the field of the call's clause only, and so agrees with
  the node of \<open>b\<close> on every other field.  Two children of \<open>b\<close>, one by \<^verbatim>\<open>limit\<close> and then one by
  \<^verbatim>\<open>orderBy\<close>, each carry their own change and the parent's value of the other clause, at
  distinct addresses, and leave the node of \<open>b\<close> as it was.
\<close>

theorem select_chain_copy_on_write:
  assumes live: "sb_node b < length st" and call: "invoke st b c = (st', r)"
  shows "take (length st) st' = st
    \<and> node_of st' b = node_of st b
    \<and> (call_error b c = None \<longrightarrow> (\<exists>b'. r = Inr b'))
    \<and> (\<forall>e. call_error b c = Some e \<longrightarrow> r = Inl e \<and> st' = st)
    \<and> (\<forall>parts d. c = CallLatestOn parts
          \<and> findDesignatedColumn (columns (sb_def b)) = Some d \<and> d \<noteq> [] \<longrightarrow>
          (\<exists>b'. r = Inr b'
             \<and> s_latestOn (node_of st' b') = Some \<lparr>timestamp = d, partitionBy = parts\<rparr>))
    \<and> (\<forall>b'. r = Inr b' \<longrightarrow>
          sb_node b' = length st \<and> length st' = Suc (length st) \<and> sb_def b' = sb_def b
          \<and> node_of st' b' = overlay (node_of st b) (call_patch st b c)
          \<and> patch_fields (call_patch st b c) = [clause_of c]
          \<and> same_but (clause_of c) (node_of st b) (node_of st' b'))
    \<and> (\<forall>n off col dir st1 b1 st2 b2.
          limit st b n off = (st1, b1) \<and> orderBy st1 b col dir = (st2, b2) \<longrightarrow>
            node_of st2 b = node_of st b
            \<and> s_limit (node_of st2 b1) = Some \<lparr>limit_count = n, limit_offset = off\<rparr>
            \<and> s_orderBy (node_of st2 b1) = s_orderBy (node_of st b)
            \<and> s_orderBy (node_of st2 b2)
                = s_orderBy (node_of st b)
                  @ [(Column None col, (case dir of None \<Rightarrow> ASC | Some d \<Rightarrow> d))]
            \<and> s_limit (node_of st2 b2) = s_limit (node_of st b)
            \<and> sb_node b1 \<noteq> sb_node b \<and> sb_node b2 \<noteq> sb_node b \<and> sb_node b1 \<noteq> sb_node b2)"
proof -
  note f = invoke_frame[OF live call]
  have l: "\<forall>parts d. c = CallLatestOn parts
          \<and> findDesignatedColumn (columns (sb_def b)) = Some d \<and> d \<noteq> [] \<longrightarrow>
          (\<exists>b'. r = Inr b'
             \<and> s_latestOn (node_of st' b') = Some \<lparr>timestamp = d, partitionBy = parts\<rparr>)"
    using invoke_latestOn call by blast
  have s: "\<forall>n off col dir st1 b1 st2 b2.
          limit st b n off = (st1, b1) \<and> orderBy st1 b col dir = (st2, b2) \<longrightarrow>
            node_of st2 b = node_of st b
            \<and> s_limit (node_of st2 b1) = Some \<lparr>limit_count = n, limit_offset = off\<rparr>
            \<and> s_orderBy (node_of st2 b1) = s_orderBy (node_of st b)
            \<and> s_orderBy (node_of st2 b2)
                = s_orderBy (node_of st b)
                  @ [(Column None col, (case dir of None \<Rightarrow> ASC | Some d \<Rightarrow> d))]
            \<and> s_limit (node_of st2 b2) = s_limit (node_of st b)
            \<and> sb_node b1 \<noteq> sb_node b \<and> sb_node b2 \<noteq> sb_node b \<and> sb_node b1 \<noteq> sb_node b2"
    using limit_orderBy_siblings[OF live] by blast
  show ?thesis
    using f(1) f(2) f(3) f(4) l f(5) s by (intro conjI)
qed

lemma readings_builder:
  "readings_store = [default_node energy_readings]
   \<and> readings_select = \<lparr>sb_node = 0, sb_def = energy_readings\<rparr>"
  by (simp add: readings_store_def readings_select_def new_SelectBuilder_def overlay_def
      no_patch_def pick_def default_node_def)

lemma readings_designated: "findDesignatedColumn (columns energy_readings) = Some ''ts''"
  by (simp add: energy_readings_def table_of_def is_designated_def q_timestamp_designated_def
      plain_meta_def)

lemma readings_latestOn:
  "invoke readings_store readings_select (CallLatestOn [''source''])
     = (readings_store @ [overlay (default_node energy_readings)
          (no_patch\<lparr>p_latestOn :=
             Some (Some \<lparr>timestamp = ''ts'', partitionBy = [''source'']\<rparr>)\<rparr>)],
        Inr \<lparr>sb_node = 1, sb_def = energy_readings\<rparr>)"
  by (simp add: latestOn_def clone_eq readings_builder node_of_def readings_designated)

theorem select_chain_copy_on_write_witness:
  "sb_node readings_select < length readings_store
   \<and> invoke readings_store readings_select (CallLatestOn [''source''])
       = (readings_store @ [overlay (default_node energy_readings)
            (no_patch\<lparr>p_latestOn :=
               Some (Some \<lparr>timestamp = ''ts'', partitionBy = [''source'']\<rparr>)\<rparr>)],
          Inr \<lparr>sb_node = 1, sb_def = energy_readings\<rparr>)
   \<and> findDesignatedColumn (columns (sb_def readings_select)) = Some ''ts''
   \<and> call_error readings_select (CallLatestOn [''source'']) = None
   \<and> node_of (readings_store @ [overlay (default_node energy_readings)
            (no_patch\<lparr>p_latestOn :=
               Some (Some \<lparr>timestamp = ''ts'', partitionBy = [''source'']\<rparr>)\<rparr>)])
        readings_select = default_node energy_readings
   \<and> s_latestOn (node_of (readings_store @ [overlay (default_node energy_readings)
            (no_patch\<lparr>p_latestOn :=
               Some (Some \<lparr>timestamp = ''ts'', partitionBy = [''source'']\<rparr>)\<rparr>)])
        \<lparr>sb_node = 1, sb_def = energy_readings\<rparr>)
       = Some \<lparr>timestamp = ''ts'', partitionBy = [''source'']\<rparr>"
proof -
  let ?st' = "readings_store @ [overlay (default_node energy_readings)
            (no_patch\<lparr>p_latestOn :=
               Some (Some \<lparr>timestamp = ''ts'', partitionBy = [''source'']\<rparr>)\<rparr>)]"
  have h1: "sb_node readings_select < length readings_store"
    by (simp add: readings_builder)
  note h2 = readings_latestOn
  have d: "findDesignatedColumn (columns (sb_def readings_select)) = Some ''ts''"
    by (simp add: readings_builder readings_designated)
  have e: "call_error readings_select (CallLatestOn [''source'']) = None"
    by (simp add: call_error_def d)
  note t = select_chain_copy_on_write[OF h1 h2]
  have n: "node_of ?st' readings_select = default_node energy_readings"
    using t by (simp add: readings_builder node_of_def)
  have "\<exists>b'. (Inr \<lparr>sb_node = 1, sb_def = energy_readings\<rparr> :: error + int SelectBuilder) = Inr b'
          \<and> s_latestOn (node_of ?st' b') = Some \<lparr>timestamp = ''ts'', partitionBy = [''source'']\<rparr>"
    using t d by blast
  then have l: "s_latestOn (node_of ?st' \<lparr>sb_node = 1, sb_def = energy_readings\<rparr>)
       = Some \<lparr>timestamp = ''ts'', partitionBy = [''source'']\<rparr>"
    by simp
  from h1 h2 d e n l show ?thesis
    by (intro conjI)
qed

text \<open>
  C6.  When the node of a builder has a \<^verbatim>\<open>SAMPLE BY\<close> clause, with any interval, fill list and
  alignment, and an empty projection list, \<^verbatim>\<open>toSQL\<close> throws; the serializer is not reached and
  no text is returned.
\<close>

theorem sampleBy_star_rejected:
  assumes "s_sampleBy (node_of st b) = Some sb" and "s_columns (node_of st b) = []"
  shows "select_toSQL H st b =
     Inl (Error (''SAMPLE BY requires explicit columns with at least one aggregation function. ''
                 @ ''Use .columns() and .addExpr(fn.avg(...)) instead of SELECT *.''))"
  using assms by (simp add: select_toSQL_def)

theorem sampleBy_star_rejected_witness:
  "s_sampleBy (node_of (fst (sampleBy readings_store readings_select ''1h'' (OneFill FillPREV) None))
       (snd (sampleBy readings_store readings_select ''1h'' (OneFill FillPREV) None)))
     = Some \<lparr>interval = ''1h'', fill = [FillPREV], align = None\<rparr>
   \<and> s_columns (node_of (fst (sampleBy readings_store readings_select ''1h'' (OneFill FillPREV) None))
       (snd (sampleBy readings_store readings_select ''1h'' (OneFill FillPREV) None))) = []
   \<and> select_toSQL int_host
       (fst (sampleBy readings_store readings_select ''1h'' (OneFill FillPREV) None))
       (snd (sampleBy readings_store readings_select ''1h'' (OneFill FillPREV) None))
     = Inl (Error (''SAMPLE BY requires explicit columns with at least one aggregation function. ''
                 @ ''Use .columns() and .addExpr(fn.avg(...)) instead of SELECT *.''))"
proof -
  let ?st = "fst (sampleBy readings_store readings_select ''1h'' (OneFill FillPREV) None)"
  let ?b = "snd (sampleBy readings_store readings_select ''1h'' (OneFill FillPREV) None)"
  have h1: "s_sampleBy (node_of ?st ?b) = Some \<lparr>interval = ''1h'', fill = [FillPREV], align = None\<rparr>"
    by (simp add: sampleBy_def clone_eq readings_builder node_of_def overlay_def pick_def
        no_patch_def default_node_def)
  have h2: "s_columns (node_of ?st ?b) = []"
    by (simp add: sampleBy_def clone_eq readings_builder node_of_def overlay_def pick_def
        no_patch_def default_node_def)
  from sampleBy_star_rejected[OF h1 h2, of int_host] h1 h2 show ?thesis
    by simp
qed

section \<open>The INSERT builder\<close>

lemma formatTemporal_error:
  "formatTemporal H v = Inl e \<Longrightarrow> e = RangeError"
  by (auto simp: formatTemporal_def split: jsval.splits option.splits)

lemma formatArray_error:
  "(case v of JArray xs \<Rightarrow> Inr (f xs)
            | _ \<Rightarrow> Inl (Error (''Expected array value, got '' @ js_typeof v))) = Inl e
   \<Longrightarrow> e = Error (''Expected array value, got '' @ js_typeof v)"
  by (cases v) simp_all

lemma formatValue_error: "formatValue H v t = Inl e \<Longrightarrow> format_error e"
  unfolding formatValue_def format_error_def
  by (cases t) (auto dest: formatTemporal_error formatArray_error split: if_splits)

lemma serializeCell_error: "serializeCell H types i v = Inl e \<Longrightarrow> format_error e"
  by (cases v)
     (auto simp: serializeCell_def bindE_def Let_def dest: formatValue_error
       split: option.splits sum.splits)

lemma serializeCells_error: "serializeCells H types i vs = Inl e \<Longrightarrow> format_error e"
  by (induction vs arbitrary: i)
     (auto simp: bindE_def dest: serializeCell_error split: sum.splits)

lemma serializeRows_error: "serializeRows H types rows = Inl e \<Longrightarrow> format_error e"
  by (induction rows)
     (auto simp: bindE_def dest: serializeCells_error split: sum.splits)

lemma not_format_error: "\<not> format_error (Error ''INSERT requires at least one row'')"
  by (simp add: format_error_def)

lemma serializeInsert_error:
  "i_values node \<noteq> [] \<Longrightarrow> serializeInsert H node \<noteq> Inl (Error ''INSERT requires at least one row'')"
  using not_format_error
  by (auto simp: serializeInsert_def bindE_def dest: serializeRows_error split: sum.splits)

text \<open>
  C10.  \<^verbatim>\<open>execute\<close> on a builder with no rows returns the count 0 and leaves the list of the
  texts sent to the client as it was: the client is not called.  \<^verbatim>\<open>toSQL\<close> on the same builder
  throws \<^verbatim>\<open>INSERT requires at least one row\<close>.  With one row or more, \<^verbatim>\<open>toSQL\<close> does not throw
  that error, and \<^verbatim>\<open>execute\<close> is what it throws or, when it returns, the call of the client with
  its text; so through \<^verbatim>\<open>execute\<close> the error cannot come from the serializer.
\<close>

theorem insert_execute_no_rows:
  "insert_execute H client sent (b\<lparr>ib_rows := []\<rparr>) = (sent, Inr 0)
   \<and> insert_toSQL H (b\<lparr>ib_rows := []\<rparr>) = Inl (Error ''INSERT requires at least one row'')
   \<and> insert_toSQL H (b\<lparr>ib_rows := row # rows\<rparr>)
        \<noteq> Inl (Error ''INSERT requires at least one row'')
   \<and> insert_execute H client sent (b\<lparr>ib_rows := row # rows\<rparr>) =
       (case insert_toSQL H (b\<lparr>ib_rows := row # rows\<rparr>) of
          Inl e \<Rightarrow> (sent, Inl e)
        | Inr sql \<Rightarrow>
            (sent @ [sql],
             case client sql of Inl e \<Rightarrow> Inl e | Inr resp \<Rightarrow> Inr (Suc (length rows))))"
proof -
  have a: "insert_execute H client sent (b\<lparr>ib_rows := []\<rparr>) = (sent, Inr 0)"
    by (simp add: insert_execute_def)
  have b: "insert_toSQL H (b\<lparr>ib_rows := []\<rparr>) = Inl (Error ''INSERT requires at least one row'')"
    by (simp add: insert_toSQL_def insertNode_def serializeInsert_def Let_def)
  have "i_values (insertNode (b\<lparr>ib_rows := row # rows\<rparr>)) \<noteq> []"
    by (simp add: insertNode_def Let_def)
  then have c: "insert_toSQL H (b\<lparr>ib_rows := row # rows\<rparr>)
        \<noteq> Inl (Error ''INSERT requires at least one row'')"
    unfolding insert_toSQL_def by (rule serializeInsert_error)
  have d: "insert_execute H client sent (b\<lparr>ib_rows := row # rows\<rparr>) =
       (case insert_toSQL H (b\<lparr>ib_rows := row # rows\<rparr>) of
          Inl e \<Rightarrow> (sent, Inl e)
        | Inr sql \<Rightarrow>
            (sent @ [sql],
             case client sql of Inl e \<Rightarrow> Inl e | Inr resp \<Rightarrow> Inr (Suc (length rows))))"
    by (simp add: insert_execute_def split: sum.splits)
  show ?thesis using a b c d by (intro conjI)
qed

lemma designatedCol_only:
  assumes "(d, col) \<in> set cols" "is_designated col" "d \<notin> set keys"
    and "\<forall>(nm, c) \<in> set cols. is_designated c \<longrightarrow> nm = d"
  shows "designatedCol cols keys = Some d"
  using assms by (induction cols) auto

lemma allKeys_omitted:
  "\<forall>row \<in> set rows. get_prop row d = JUndefined \<Longrightarrow> d \<notin> set (allKeys rows)"
  by (auto simp: allKeys_def)

lemma js_join_elems_map: "js_join_elems H xs = map (js_join_elem H) xs"
  by (induction xs) simp_all

lemma serializeCell_now: "serializeCell H types i now_token = Inr (JStr ''now()'')"
  by (simp add: serializeCell_def now_token_def)

lemma serializeCells_now:
  "serializeCells H types i vs = Inr cells \<Longrightarrow>
     length cells = length vs \<and> (\<forall>j < length vs. vs ! j = now_token \<longrightarrow> cells ! j = JStr ''now()'')"
proof (induction vs arbitrary: i cells)
  case Nil
  then show ?case by simp
next
  case (Cons v vs)
  from Cons.prems obtain c cs where c: "serializeCell H types i v = Inr c"
    and cs: "serializeCells H types (Suc i) vs = Inr cs" and cells: "cells = c # cs"
    by (auto simp: bindE_def split: sum.splits)
  from Cons.IH[OF cs] have ih: "length cs = length vs"
    "\<forall>j < length vs. vs ! j = now_token \<longrightarrow> cs ! j = JStr ''now()''" by auto
  have "\<forall>j < length (v # vs). (v # vs) ! j = now_token \<longrightarrow> cells ! j = JStr ''now()''"
  proof (intro allI impI)
    fix j assume j: "j < length (v # vs)" and n: "(v # vs) ! j = now_token"
    show "cells ! j = JStr ''now()''"
    proof (cases j)
      case 0
      with n c show ?thesis by (simp add: cells serializeCell_now)
    next
      case (Suc k)
      with j n ih show ?thesis by (simp add: cells)
    qed
  qed
  with ih show ?case by (simp add: cells)
qed

lemma serializeRows_now:
  "serializeRows H types rows = Inr texts \<Longrightarrow>
     \<exists>cellTexts. texts = map (join '', '') cellTexts
       \<and> length cellTexts = length rows
       \<and> (\<forall>k < length rows. length (cellTexts ! k) = length (rows ! k)
             \<and> (\<forall>j < length (rows ! k). rows ! k ! j = now_token \<longrightarrow> cellTexts ! k ! j = ''now()''))"
proof (induction rows arbitrary: texts)
  case Nil
  then show ?case by simp
next
  case (Cons row rows)
  from Cons.prems obtain cells rest where c: "serializeCells H types 0 row = Inr cells"
    and r: "serializeRows H types rows = Inr rest"
    and t: "texts = js_join H '', '' cells # rest"
    by (auto simp: bindE_def split: sum.splits)
  from Cons.IH[OF r] obtain cts where cts: "rest = map (join '', '') cts"
     "length cts = length rows"
     "\<forall>k < length rows. length (cts ! k) = length (rows ! k)
             \<and> (\<forall>j < length (rows ! k). rows ! k ! j = now_token \<longrightarrow> cts ! k ! j = ''now()'')"
    by blast
  from serializeCells_now[OF c] have cl: "length cells = length row"
    "\<forall>j < length row. row ! j = now_token \<longrightarrow> cells ! j = JStr ''now()''" by auto
  let ?ct = "map (js_join_elem H) cells # cts"
  have 1: "texts = map (join '', '') ?ct"
    by (simp add: t cts js_join_def js_join_elems_map)
  have 2: "length ?ct = length (row # rows)" by (simp add: cts)
  have 3: "\<forall>k < length (row # rows). length (?ct ! k) = length ((row # rows) ! k)
             \<and> (\<forall>j < length ((row # rows) ! k). (row # rows) ! k ! j = now_token \<longrightarrow> ?ct ! k ! j = ''now()'')"
  proof (intro allI impI)
    fix k assume k: "k < length (row # rows)"
    show "length (?ct ! k) = length ((row # rows) ! k)
             \<and> (\<forall>j < length ((row # rows) ! k). (row # rows) ! k ! j = now_token \<longrightarrow> ?ct ! k ! j = ''now()'')"
    proof (cases k)
      case 0
      then show ?thesis using cl by simp
    next
      case (Suc k')
      then show ?thesis using k cts(3) by simp
    qed
  qed
  from 1 2 3 show ?case by blast
qed

lemma insertNode_now:
  assumes des: "(d, col) \<in> set (columns (ib_def b))" "is_designated col"
    and only: "\<forall>(nm, c) \<in> set (columns (ib_def b)). is_designated c \<longrightarrow> nm = d"
    and omit: "\<forall>row \<in> set (ib_rows b). get_prop row d = JUndefined"
  shows "d \<in> set (i_columns (insertNode b))"
    and "length (i_values (insertNode b)) = length (ib_rows b)"
    and "\<forall>k < length (ib_rows b). length (i_values (insertNode b) ! k) = length (i_columns (insertNode b))
        \<and> (\<forall>j < length (i_columns (insertNode b)). i_columns (insertNode b) ! j = d
               \<longrightarrow> i_values (insertNode b) ! k ! j = now_token)"
proof -
  let ?keys = "allKeys (ib_rows b)"
  have nk: "d \<notin> set ?keys" using omit by (rule allKeys_omitted)
  have dc: "designatedCol (columns (ib_def b)) ?keys = Some d"
    using des nk only by (rule designatedCol_only)
  have "(d, col) \<in> set (insertColumns (columns (ib_def b)) ?keys (Some d))"
    using des by (simp add: insertColumns_def)
  then show "d \<in> set (i_columns (insertNode b))"
    by (force simp: insertNode_def Let_def dc)
  show "length (i_values (insertNode b)) = length (ib_rows b)"
    by (simp add: insertNode_def Let_def)
  show "\<forall>k < length (ib_rows b). length (i_values (insertNode b) ! k) = length (i_columns (insertNode b))
        \<and> (\<forall>j < length (i_columns (insertNode b)). i_columns (insertNode b) ! j = d
               \<longrightarrow> i_values (insertNode b) ! k ! j = now_token)"
    using omit by (auto simp: insertNode_def Let_def dc insertCell_def)
qed

text \<open>
  The injection, where it works.  Let the table have the designated timestamp column \<open>d\<close>
  and no other designated column, and let the builder hold at least one row, in each of
  which \<^verbatim>\<open>row[d]\<close> is \<^verbatim>\<open>undefined\<close>.  Then \<open>d\<close> is among the columns of the INSERT node; every
  row of the node has the object \<^verbatim>\<open>{_rawSQL: "now()"}\<close> at the positions of \<open>d\<close>; the serializer
  turns that object into the text \<^verbatim>\<open>now()\<close> whatever the type at its position; and \<^verbatim>\<open>toSQL\<close>
  either throws an error of \<^verbatim>\<open>formatValue\<close> (for a value of another column), or returns the
  INSERT text over these columns with one list of cell texts for each row, in which the cell
  at each position of \<open>d\<close> is exactly \<^verbatim>\<open>now()\<close>.
\<close>

lemma insert_injects_now:
  assumes des: "(d, col) \<in> set (columns (ib_def b))" "is_designated col"
    and only: "\<forall>(nm, c) \<in> set (columns (ib_def b)). is_designated c \<longrightarrow> nm = d"
    and rows: "ib_rows b \<noteq> []"
    and omit: "\<forall>row \<in> set (ib_rows b). get_prop row d = JUndefined"
  shows "d \<in> set (i_columns (insertNode b))
    \<and> (\<forall>vals \<in> set (i_values (insertNode b)). \<forall>j < length (i_columns (insertNode b)).
          i_columns (insertNode b) ! j = d \<longrightarrow> vals ! j = now_token)
    \<and> (\<forall>types i. serializeCell H types i now_token = Inr (JStr ''now()''))
    \<and> ((\<exists>e. insert_toSQL H b = Inl e \<and> format_error e)
       \<or> (\<exists>cellTexts.
            insert_toSQL H b = Inr (insert_text (name (ib_def b)) (i_columns (insertNode b)) cellTexts)
            \<and> length cellTexts = length (ib_rows b)
            \<and> (\<forall>cells \<in> set cellTexts. length cells = length (i_columns (insertNode b))
                 \<and> (\<forall>j < length cells. i_columns (insertNode b) ! j = d \<longrightarrow> cells ! j = ''now()''))))"
proof -
  note n = insertNode_now[OF des only omit]
  let ?node = "insertNode b"
  have a: "\<forall>vals \<in> set (i_values ?node). \<forall>j < length (i_columns ?node).
          i_columns ?node ! j = d \<longrightarrow> vals ! j = now_token"
    using n(2) n(3) by (auto simp: in_set_conv_nth)
  have ne: "i_values ?node \<noteq> []" using rows n(2) by auto
  have d: "(\<exists>e. insert_toSQL H b = Inl e \<and> format_error e)
       \<or> (\<exists>cellTexts.
            insert_toSQL H b = Inr (insert_text (name (ib_def b)) (i_columns ?node) cellTexts)
            \<and> length cellTexts = length (ib_rows b)
            \<and> (\<forall>cells \<in> set cellTexts. length cells = length (i_columns ?node)
                 \<and> (\<forall>j < length cells. i_columns ?node ! j = d \<longrightarrow> cells ! j = ''now()'')))"
  proof (cases "serializeRows H (i_columnTypes ?node) (i_values ?node)")
    case (Inl e)
    then have "insert_toSQL H b = Inl e" using ne
      by (simp add: insert_toSQL_def serializeInsert_def bindE_def)
    with serializeRows_error[OF Inl] show ?thesis by blast
  next
    case (Inr texts)
    from serializeRows_now[OF Inr] obtain cts where cts: "texts = map (join '', '') cts"
      "length cts = length (i_values ?node)"
      "\<forall>k < length (i_values ?node). length (cts ! k) = length (i_values ?node ! k)
         \<and> (\<forall>j < length (i_values ?node ! k). i_values ?node ! k ! j = now_token \<longrightarrow> cts ! k ! j = ''now()'')"
      by blast
    have tbl: "i_table ?node = name (ib_def b)" by (simp add: insertNode_def Let_def)
    have sql: "insert_toSQL H b = Inr (insert_text (name (ib_def b)) (i_columns ?node) cts)"
      using ne Inr
      by (simp add: insert_toSQL_def serializeInsert_def bindE_def insert_text_def cts(1) tbl o_def)
    have len: "length cts = length (ib_rows b)" using cts(2) n(2) by simp
    have cells: "\<forall>cells \<in> set cts. length cells = length (i_columns ?node)
                 \<and> (\<forall>j < length cells. i_columns ?node ! j = d \<longrightarrow> cells ! j = ''now()'')"
    proof
      fix cells assume "cells \<in> set cts"
      then obtain k where k: "k < length cts" "cells = cts ! k" by (auto simp: in_set_conv_nth)
      then have k': "k < length (ib_rows b)" "k < length (i_values ?node)" using len cts(2) by auto
      from n(3) k'(1) have v: "length (i_values ?node ! k) = length (i_columns ?node)"
        "\<forall>j < length (i_columns ?node). i_columns ?node ! j = d \<longrightarrow> i_values ?node ! k ! j = now_token"
        by auto
      from cts(3) k'(2) have c: "length (cts ! k) = length (i_values ?node ! k)"
        "\<forall>j < length (i_values ?node ! k). i_values ?node ! k ! j = now_token \<longrightarrow> cts ! k ! j = ''now()''"
        by auto
      show "length cells = length (i_columns ?node)
                 \<and> (\<forall>j < length cells. i_columns ?node ! j = d \<longrightarrow> cells ! j = ''now()'')"
        using v c k(2) by auto
    qed
    from sql len cells show ?thesis by blast
  qed
  have c: "\<forall>types i. serializeCell H types i now_token = Inr (JStr ''now()'')"
    by (simp add: serializeCell_now)
  from n(1) a c d show ?thesis by (intro conjI)
qed

lemma solar_insert_sql:
  "insert_toSQL int_host solar_insert
     = Inr (''INSERT INTO energy_readings'' @ [CHR 0x0A]
            @ ''(ts, source, power_kw, meter_active)'' @ [CHR 0x0A]
            @ ''VALUES'' @ [CHR 0x0A]
            @ ''(now(), '' @ [CHR 0x27] @ ''solar'' @ [CHR 0x27] @ '', 48, true)'')"
  by (simp add: insert_toSQL_def insertNode_def Let_def solar_insert_def values_row_def
      new_InsertBuilder_def energy_readings_def table_of_def solar_row_def allKeys_def
      get_prop_def object_prototype_def is_designated_def q_timestamp_designated_def q_column_def plain_meta_def
      insertColumns_def insertCell_def now_token_def serializeInsert_def bindE_def
      serializeCell_def formatValue_def formatTemporal_def js_join_def escapeIdentifier_def
      ident_start_def ident_char_def int_host_def show_int_def show_nat.simps digit_char_def
      quoted_def escapeString_def)

lemma insert_injects_now_example:
  "(''ts'', q_timestamp_designated) \<in> set (columns (ib_def solar_insert))
   \<and> is_designated q_timestamp_designated
   \<and> ib_rows solar_insert = [solar_row]
   \<and> get_prop solar_row ''ts'' = JUndefined
   \<and> ''ts'' \<in> set (i_columns (insertNode solar_insert))
   \<and> serializeCell int_host [QTimestamp] 0 now_token = Inr (JStr ''now()'')
   \<and> insert_toSQL int_host solar_insert
     = Inr (''INSERT INTO energy_readings'' @ [CHR 0x0A]
            @ ''(ts, source, power_kw, meter_active)'' @ [CHR 0x0A]
            @ ''VALUES'' @ [CHR 0x0A]
            @ ''(now(), '' @ [CHR 0x27] @ ''solar'' @ [CHR 0x27] @ '', 48, true)'')"
proof -
  have h1: "(''ts'', q_timestamp_designated) \<in> set (columns (ib_def solar_insert))"
    by (simp add: solar_insert_def values_row_def new_InsertBuilder_def energy_readings_def
        table_of_def)
  have h2: "is_designated q_timestamp_designated"
    by (simp add: is_designated_def q_timestamp_designated_def plain_meta_def)
  have h3: "\<forall>(nm, c) \<in> set (columns (ib_def solar_insert)). is_designated c \<longrightarrow> nm = ''ts''"
    by (simp add: solar_insert_def values_row_def new_InsertBuilder_def energy_readings_def
        table_of_def is_designated_def q_column_def plain_meta_def)
  have rows: "ib_rows solar_insert = [solar_row]"
    by (simp add: solar_insert_def values_row_def new_InsertBuilder_def)
  have h4: "ib_rows solar_insert \<noteq> []"
    by (simp add: rows)
  have u: "get_prop solar_row ''ts'' = JUndefined"
    by (simp add: get_prop_def object_prototype_def solar_row_def)
  have h5: "\<forall>row \<in> set (ib_rows solar_insert). get_prop row ''ts'' = JUndefined"
    by (simp add: rows u)
  from insert_injects_now[OF h1 h2 h3 h4 h5, of int_host]
  have "''ts'' \<in> set (i_columns (insertNode solar_insert))"
    and "serializeCell int_host [QTimestamp] 0 now_token = Inr (JStr ''now()'')"
    by blast+
  with h1 h2 rows u solar_insert_sql show ?thesis
    by (intro conjI)
qed

text \<open>
  C8, at the table \<open>constructor_ts\<close> and the row \<^verbatim>\<open>{v: 1}\<close>.  The designated column \<^verbatim>\<open>constructor\<close>
  is not among the keys of the row, so it is taken for the injection and is in the column
  list.  The cell is then decided by \<^verbatim>\<open>row[name] === undefined\<close>, and \<^verbatim>\<open>row["constructor"]\<close> is
  the function \<^verbatim>\<open>Object\<close> the row inherits from its prototype: the cell is that function, and it
  is formatted as a timestamp literal, the function's text in single quotes, where \<^verbatim>\<open>now()\<close>
  was to be.
\<close>

theorem insert_inherited_column_not_injected:
  "is_designated q_timestamp_designated
   \<and> columns (ib_def constructor_insert)
       = [(''constructor'', q_timestamp_designated), (''v'', q_column QDouble)]
   \<and> ib_rows constructor_insert = [[(''v'', JNum 1)]]
   \<and> map_of [(''v'', JNum (1::int))] ''constructor'' = None
   \<and> i_columns (insertNode constructor_insert) = [''constructor'', ''v'']
   \<and> i_values (insertNode constructor_insert) = [[JFunction ''Object'', JNum 1]]
   \<and> insert_toSQL int_host constructor_insert
     = Inr (''INSERT INTO t'' @ [CHR 0x0A]
            @ ''(constructor, v)'' @ [CHR 0x0A]
            @ ''VALUES'' @ [CHR 0x0A]
            @ ''('' @ [CHR 0x27] @ ''function Object() { [native code] }'' @ [CHR 0x27]
            @ '', 1)'')"
  by (simp add: insert_toSQL_def insertNode_def Let_def constructor_insert_def values_row_def
      new_InsertBuilder_def constructor_ts_def table_of_def allKeys_def
      get_prop_def object_prototype_def is_designated_def q_timestamp_designated_def
      q_column_def plain_meta_def insertColumns_def insertCell_def now_token_def
      serializeInsert_def bindE_def serializeCell_def formatValue_def formatTemporal_def
      js_join_def escapeIdentifier_def ident_start_def ident_char_def int_host_def
      show_int_def show_nat.simps digit_char_def quoted_def escapeString_def)

section \<open>LATEST ON\<close>

lemma latestOn_absent:
  "findDesignatedColumn (columns (sb_def b)) = None \<Longrightarrow>
     latestOn st b parts = (st, Inl (Error ''LATEST ON requires a designated timestamp column''))"
  by (simp add: latestOn_def)

lemma latestOn_present:
  "findDesignatedColumn (columns (sb_def b)) = Some d \<Longrightarrow> d \<noteq> [] \<Longrightarrow>
     \<exists>st' b'. latestOn st b parts = (st', Inr b')
       \<and> s_latestOn (node_of st' b') = Some \<lparr>timestamp = d, partitionBy = parts\<rparr>"
  by (simp add: latestOn_def clone_eq node_of_def overlay_def pick_def no_patch_def)

lemma findDesignatedColumn_None:
  "findDesignatedColumn cols = None \<longleftrightarrow> (\<forall>(nm, col) \<in> set cols. \<not> is_designated col)"
  by (induction cols) (auto split: if_splits)

text \<open>
  C9, at the table \<open>unnamed_ts\<close>.  Its first column is a designated timestamp and
  \<^verbatim>\<open>findDesignatedColumn\<close> returns its name, the empty string; \<^verbatim>\<open>latestOn\<close> tests the name with
  \<^verbatim>\<open>!designated\<close>, which holds of the empty string as it does of \<^verbatim>\<open>null\<close>, and throws the error
  for a table without a designated column.
\<close>

theorem latestOn_unnamed_designated:
  "findDesignatedColumn (columns unnamed_ts) = Some []
   \<and> latestOn [default_node unnamed_ts] \<lparr>sb_node = 0, sb_def = unnamed_ts\<rparr> [''v'']
       = ([default_node unnamed_ts],
          Inl (Error ''LATEST ON requires a designated timestamp column''))"
  by (simp add: unnamed_ts_def table_of_def latestOn_def is_designated_def
      q_timestamp_designated_def plain_meta_def)

section \<open>Wide integers: literal and decoding\<close>








lemma trim_id:
  assumes "s \<noteq> []" "\<not> js_whitespace (hd s)" "\<not> js_whitespace (last s)"
  shows "trim s = s"
proof -
  have 1: "dropWhile js_whitespace s = s" using assms(1,2) by (cases s) auto
  obtain a l where al: "rev s = a # l" using assms(1) by (cases "rev s") auto
  then have "a = last s" using assms(1) by (metis hd_rev list.sel(1))
  then have na: "\<not> js_whitespace a" using assms(3) by simp
  have 2: "dropWhile js_whitespace (rev s) = rev s" unfolding al using na by simp
  show ?thesis by (simp add: trim_def 1 2)
qed








lemma upper_LONG: "toUpperCase ''LONG'' = ''LONG''" "toUpperCase ''TIMESTAMP_NS'' = ''TIMESTAMP_NS''"
   "toUpperCase ''LONG256'' = ''LONG256''"
  by (simp_all add: toUpperCase_def upper_char_def)





lemma quoted_not_decoded: "StringToBigInt (quoted s) = None"
proof -
  have t: "trim (quoted s) = quoted s"
    unfolding quoted_def by (rule trim_id) (simp_all add: js_whitespace_def)
  show ?thesis
    by (simp add: StringToBigInt_def t Let_def)
       (simp add: quoted_def parse_nat_def digit_of_def upt_rec)
qed


text \<open>
  The quotes of an SQL string are not part of the text a response carries: \<^verbatim>\<open>BigInt\<close> rejects
  a text that starts with one.
\<close>

lemma quoted_literal_rejected:
  "coerceValue H (JStr (quoted s)) ''LONG256'' = Inl SyntaxError"
  by (simp add: coerceValue_def upper_LONG Let_def quoted_not_decoded)

section \<open>Cases of the repository's tests, evaluated\<close>

lemmas eval_defs = formatValue_def formatTemporal_def quoted_def escapeString_def
  escapeIdentifier_def ident_start_def ident_char_def bindE_def int_host_def show_int_def
  show_nat.simps digit_char_def js_join_def serializeLatestOn_def serializeLimit_def
  serializeSampleBy_def default_node_def energy_readings_def table_of_def

lemma serialize_select_star:
  "serializeSelect int_host (default_node energy_readings)
     = Inr (''SELECT *'' @ [CHR 0x0A] @ ''FROM energy_readings'')"
  by (simp add: eval_defs)

lemma serialize_where_binary:
  "serializeExpr int_host
     (Binary ''='' (Column None ''source'') (Literal (JStr ''solar'') QVarchar))
     = Inr (''(source = '' @ [CHR 0x27] @ ''solar'' @ [CHR 0x27] @ '')'')"
  by (simp add: eval_defs)

lemma format_string_with_quote:
  "formatValue int_host (JStr (''it'' @ [CHR 0x27] @ ''s'')) QVarchar
     = Inr ([CHR 0x27] @ ''it'' @ [CHR 0x27, CHR 0x27] @ ''s'' @ [CHR 0x27])"
  by (simp add: eval_defs)

lemma format_long_max:
  "formatValue int_host (JBigInt 9223372036854775807) QLong = Inr ''9223372036854775807''"
  by (simp add: eval_defs)

lemma coerce_long_max:
  "coerceValue int_host (JStr ''9223372036854775807'') ''LONG''
     = Inr (JBigInt 9223372036854775807)"
  by (simp add: coerceValue_def toUpperCase_def upper_char_def Let_def StringToBigInt_def
      trim_def js_whitespace_def parse_nat_def digit_of_def upt_rec)

lemma coerce_long256_hex:
  "coerceValue int_host (JStr ''0xabc'') ''long256'' = Inr (JBigInt 2748)"
  by (simp add: coerceValue_def toUpperCase_def upper_char_def Let_def StringToBigInt_def
      trim_def js_whitespace_def parse_nat_def digit_of_def upt_rec)

lemma select_limit_offset:
  "select_toSQL int_host (fst (limit readings_store readings_select 100 (Some 50)))
       (snd (limit readings_store readings_select 100 (Some 50)))
     = Inr (''SELECT *'' @ [CHR 0x0A] @ ''FROM energy_readings'' @ [CHR 0x0A]
            @ ''LIMIT 100, 50'')"
  by (simp add: select_toSQL_def limit_def clone_eq readings_builder node_of_def overlay_def
      pick_def no_patch_def eval_defs)

lemma select_latestOn:
  "latestOn readings_store readings_select [''source'']
     = (readings_store @ [overlay (default_node energy_readings)
          (no_patch\<lparr>p_latestOn :=
             Some (Some \<lparr>timestamp = ''ts'', partitionBy = [''source'']\<rparr>)\<rparr>)],
        Inr \<lparr>sb_node = 1, sb_def = energy_readings\<rparr>)"
  by (simp add: latestOn_def clone_eq readings_builder node_of_def energy_readings_def
      table_of_def is_designated_def q_timestamp_designated_def plain_meta_def)

lemma and_chain_of_three:
  "bindE (and_exprs [Raw ''a'', Raw ''b'', Raw ''c'']) (serializeExpr int_host)
     = Inr ''((a AND b) AND c)''"
  by (simp add: bindE_def combine_def)

end
